theory Spec2Isabelle
  imports Complex_Main "HOL-Library.Word"
begin

section \<open>Values crossing the JSON and SQL-parameter boundary\<close>

text \<open>
  The program carries every field value as an \<^verbatim>\<open>nlohmann::json\<close>. The library is not part
  of the repository; the datatype below has one constructor per \<^verbatim>\<open>value_t\<close> tag the code
  can meet. An object is a \<^verbatim>\<open>std::map\<close>, modelled as an association list with unique keys;
  the list keeps the order of insertion, on which nothing the program does depends.
  The type variable \<open>'d\<close> stands for the C++ \<^verbatim>\<open>double\<close>: the program stores and copies
  doubles and never computes with them.
\<close>

datatype 'd json =
    JNull
  | JBool bool
  | JInt "64 word"
  | JUInt "64 word"
  | JFloat 'd
  | JString string
  | JArray "'d json list"
  | JObject "(string \<times> 'd json) list"

text \<open>
  Every exception the modelled code can raise. The numbers are the ids of
  \<^verbatim>\<open>nlohmann::json::exception\<close>: 302 (\<^verbatim>\<open>get_to\<close> on a value of the wrong type),
  304 (\<^verbatim>\<open>at\<close> on a value that is not an object), 305 (\<^verbatim>\<open>operator[]\<close> with a key on a value
  that is neither null nor an object), 403 (\<^verbatim>\<open>at\<close> with a key the object lacks).
\<close>

datatype error =
    JsonTypeError nat
  | JsonOutOfRange string
  | ExecutorError string

fun obj_find :: "(string \<times> 'v) list \<Rightarrow> string \<Rightarrow> 'v option" where
  "obj_find [] k = None"
| "obj_find ((k', v) # kvs) k = (if k' = k then Some v else obj_find kvs k)"

fun obj_put :: "string \<Rightarrow> 'v \<Rightarrow> (string \<times> 'v) list \<Rightarrow> (string \<times> 'v) list" where
  "obj_put k v [] = [(k, v)]"
| "obj_put k v ((k', v') # kvs) = (if k' = k then (k, v) # kvs else (k', v') # obj_put k v kvs)"

text \<open>\<^verbatim>\<open>j[key] = v\<close>: a null value becomes an object first.\<close>

fun json_assign :: "'d json \<Rightarrow> string \<Rightarrow> 'd json \<Rightarrow> error + 'd json" where
  "json_assign JNull k v = Inr (JObject [(k, v)])"
| "json_assign (JObject kvs) k v = Inr (JObject (obj_put k v kvs))"
| "json_assign _ k v = Inl (JsonTypeError 305)"

text \<open>\<^verbatim>\<open>j.at(key)\<close>.\<close>

fun json_at :: "'d json \<Rightarrow> string \<Rightarrow> error + 'd json" where
  "json_at (JObject kvs) k = (case obj_find kvs k of None \<Rightarrow> Inl (JsonOutOfRange k) | Some v \<Rightarrow> Inr v)"
| "json_at _ k = Inl (JsonTypeError 304)"

text \<open>\<^verbatim>\<open>j.contains(key)\<close>: false on anything that is not an object.\<close>

fun json_contains :: "'d json \<Rightarrow> string \<Rightarrow> bool" where
  "json_contains (JObject kvs) k = (obj_find kvs k \<noteq> None)"
| "json_contains _ k = False"

fun is_null :: "'d json \<Rightarrow> bool" where
  "is_null JNull = True"
| "is_null _ = False"

section \<open>Library conversions taken as parameters\<close>

text \<open>
  What the C and C++ libraries compute is not in the repository. The conversions whose
  result depends on floating point, on the calendar or on the process's time zone are
  fields of one record that the model passes along.
\<close>

record tm =
  tm_sec :: int
  tm_min :: int
  tm_hour :: int
  tm_mday :: int
  tm_mon :: int
  tm_year :: int
  tm_wday :: int
  tm_yday :: int
  tm_isdst :: int

text \<open>\<^verbatim>\<open>std::tm tm = {}\<close>: every member zero.\<close>

definition tm_zero :: tm where
  "tm_zero = \<lparr> tm_sec = 0, tm_min = 0, tm_hour = 0, tm_mday = 0, tm_mon = 0, tm_year = 0,
               tm_wday = 0, tm_yday = 0, tm_isdst = 0 \<rparr>"

text \<open>\<open>get_time tm str fmt\<close> is the \<^verbatim>\<open>tm\<close> after \<^verbatim>\<open>ss >> std::get_time(&tm, fmt)\<close> on a stream
  holding \<open>str\<close>.\<close>

record 'd cxxlib =
  i64_to_double :: "64 word \<Rightarrow> 'd"
  u64_to_double :: "64 word \<Rightarrow> 'd"
  double_to_int :: "'d \<Rightarrow> 32 word"
  gmtime :: "int \<Rightarrow> tm"
  mktime :: "tm \<Rightarrow> int"
  put_time :: "tm \<Rightarrow> string \<Rightarrow> string"
  get_time :: "tm \<Rightarrow> string \<Rightarrow> string \<Rightarrow> tm"

section \<open>Column descriptors and entity traits\<close>

text \<open>
  A pointer to member \<^verbatim>\<open>FieldType T::* member\<close> reads and writes one member of an entity:
  it is modelled by the pair of the two. \<open>field\<close> lists the field types for which the
  generic \<^verbatim>\<open>nlohmann::json\<close> conversion is used.
\<close>

datatype ('e, 'd) field =
    IntField "'e \<Rightarrow> 32 word" "32 word \<Rightarrow> 'e \<Rightarrow> 'e"
  | DoubleField "'e \<Rightarrow> 'd" "'d \<Rightarrow> 'e \<Rightarrow> 'e"
  | StringField "'e \<Rightarrow> string" "string \<Rightarrow> 'e \<Rightarrow> 'e"

text \<open>\<^verbatim>\<open>Column<T, FieldType>\<close>; \<open>'m\<close> is the type of the member pointers a column list holds.\<close>

record 'm Column =
  name :: string
  member :: 'm

text \<open>
  \<^verbatim>\<open>EntityTraits<T>\<close>. \<open>Entity\<close> is what the declaration \<^verbatim>\<open>T obj;\<close> constructs, the
  default-constructed entity.
\<close>

record ('e, 'm) EntityTraits =
  Entity :: 'e
  tableName :: string
  primaryKey :: string
  columns :: "'m Column list"

type_synonym ('e, 'd) Traits = "('e, ('e, 'd) field) EntityTraits"

text \<open>\<^verbatim>\<open>for_each(tuple, f)\<close> calls \<open>f\<close> on every element in index order; the variables the
  lambda captures by reference are the state \<open>s\<close>.\<close>

fun for_each :: "'a list \<Rightarrow> ('a \<Rightarrow> 's \<Rightarrow> 's) \<Rightarrow> 's \<Rightarrow> 's" where
  "for_each [] f s = s"
| "for_each (x # xs) f s = for_each xs f (f x s)"

text \<open>The same loop when the lambda can throw: the first exception ends it.\<close>

fun for_each_throwing :: "'a list \<Rightarrow> ('a \<Rightarrow> 's \<Rightarrow> error + 's) \<Rightarrow> 's \<Rightarrow> error + 's" where
  "for_each_throwing [] f s = Inr s"
| "for_each_throwing (x # xs) f s =
     (case f x s of Inl e \<Rightarrow> Inl e | Inr s' \<Rightarrow> for_each_throwing xs f s')"

subsection \<open>\<^verbatim>\<open>std::to_string(int)\<close>\<close>

definition digit_char :: "nat \<Rightarrow> char" where
  "digit_char d = ''0123456789'' ! d"

fun nat_to_string :: "nat \<Rightarrow> string" where
  "nat_to_string n =
     (if n < 10 then [digit_char n] else nat_to_string (n div 10) @ [digit_char (n mod 10)])"

declare nat_to_string.simps [simp del]

definition to_string :: "int \<Rightarrow> string" where
  "to_string i = (if i < 0 then CHR ''-'' # nat_to_string (nat (- i)) else nat_to_string (nat i))"

section \<open>The entities and their traits\<close>

text \<open>\<^verbatim>\<open>FXInstrument2\<close>, with the two members it inherits from \<^verbatim>\<open>BaseEntity\<close>.\<close>

record 'd FXInstrument2 =
  fx2_uniqueId :: "32 word"
  fx2_internalName :: string
  fx2_id :: "32 word"
  fx2_userId :: "32 word"
  fx2_instrumentId :: "32 word"
  fx2_side :: string
  fx2_quantity :: 'd
  fx2_price :: 'd
  fx2_timestamp :: string

definition FXInstrument2_default :: "'d \<Rightarrow> 'd FXInstrument2" where
  "FXInstrument2_default zero =
     \<lparr> fx2_uniqueId = 0, fx2_internalName = [], fx2_id = 0, fx2_userId = 0,
       fx2_instrumentId = 0, fx2_side = [], fx2_quantity = zero, fx2_price = zero,
       fx2_timestamp = [] \<rparr>"

definition FXInstrument2_columns :: "('d FXInstrument2, 'd) field Column list" where
  "FXInstrument2_columns =
     [ \<lparr> name = ''id'', member = IntField fx2_id (\<lambda>v e. e\<lparr>fx2_id := v\<rparr>) \<rparr>,
       \<lparr> name = ''userId'', member = IntField fx2_userId (\<lambda>v e. e\<lparr>fx2_userId := v\<rparr>) \<rparr>,
       \<lparr> name = ''instrumentId'',
         member = IntField fx2_instrumentId (\<lambda>v e. e\<lparr>fx2_instrumentId := v\<rparr>) \<rparr>,
       \<lparr> name = ''side'', member = StringField fx2_side (\<lambda>v e. e\<lparr>fx2_side := v\<rparr>) \<rparr>,
       \<lparr> name = ''quantity'', member = DoubleField fx2_quantity (\<lambda>v e. e\<lparr>fx2_quantity := v\<rparr>) \<rparr>,
       \<lparr> name = ''price'', member = DoubleField fx2_price (\<lambda>v e. e\<lparr>fx2_price := v\<rparr>) \<rparr>,
       \<lparr> name = ''timestamp'',
         member = StringField fx2_timestamp (\<lambda>v e. e\<lparr>fx2_timestamp := v\<rparr>) \<rparr> ]"

definition FXInstrument2_traits :: "'d \<Rightarrow> ('d FXInstrument2, 'd) Traits" where
  "FXInstrument2_traits zero =
     \<lparr> Entity = FXInstrument2_default zero, tableName = ''FXInstrument2'',
       primaryKey = ''id'', columns = FXInstrument2_columns \<rparr>"

text \<open>
  \<^verbatim>\<open>FXInstrument\<close> of the first variant of the header has the same members, and its
  traits name another table. The traits take their columns from
  \<^verbatim>\<open>ColumnList<Entity, Column<Entity, int>{...}, ...>::columns\<close>, which gives expressions
  where the template \<^verbatim>\<open>ColumnList<T, typename... Cols>\<close> takes types and whose
  \<^verbatim>\<open>columns\<close> is a value-initialised tuple: the source does not determine a column list,
  so it is a parameter of the model, of any member type. The builders and the repository
  of the first variant have the text of the second variant's, so each is modelled once;
  the first variant's \<^verbatim>\<open>autoFromJson\<close> has another text and is not modelled.
\<close>

record 'd FXInstrument =
  fx_uniqueId :: "32 word"
  fx_internalName :: string
  fx_id :: "32 word"
  fx_userId :: "32 word"
  fx_instrumentId :: "32 word"
  fx_side :: string
  fx_quantity :: 'd
  fx_price :: 'd
  fx_timestamp :: string

definition FXInstrument_default :: "'d \<Rightarrow> 'd FXInstrument" where
  "FXInstrument_default zero =
     \<lparr> fx_uniqueId = 0, fx_internalName = [], fx_id = 0, fx_userId = 0,
       fx_instrumentId = 0, fx_side = [], fx_quantity = zero, fx_price = zero,
       fx_timestamp = [] \<rparr>"

definition FXInstrument_traits ::
  "'d \<Rightarrow> 'm Column list \<Rightarrow> ('d FXInstrument, 'm) EntityTraits" where
  "FXInstrument_traits zero cols =
     \<lparr> Entity = FXInstrument_default zero, tableName = ''employees'',
       primaryKey = ''id'', columns = cols \<rparr>"

section \<open>SQL builders (prepared statements)\<close>

definition buildInsertSQL :: "('e, 'm) EntityTraits \<Rightarrow> string" where
  "buildInsertSQL T =
     (let sql = ''INSERT INTO '';
          sql = sql @ tableName T;
          sql = sql @ '' ('';
          first = True;
          (sql, first) = for_each (columns T)
             (\<lambda>col (sql, first).
                (let sql = (if \<not> first then sql @ '', '' else sql);
                     sql = sql @ name col
                 in (sql, False)))
             (sql, first);
          sql = sql @ '') VALUES ('';
          first = True;
          index = (1::int);
          (sql, first, index) = for_each (columns T)
             (\<lambda>col (sql, first, index).
                (let sql = (if \<not> first then sql @ '', '' else sql);
                     sql = sql @ (''$'' @ to_string index)
                 in (sql, False, index + 1)))
             (sql, first, index);
          sql = sql @ '')''
      in sql)"

definition to_json_field :: "('e, 'd) field \<Rightarrow> 'e \<Rightarrow> 'd json" where
  \<comment> \<open>\<^verbatim>\<open>nlohmann::json(obj.*(col.member))\<close>: an \<^verbatim>\<open>int\<close> widens to the 64-bit signed integer\<close>
  "to_json_field m obj =
     (case m of
        IntField g s \<Rightarrow> JInt (scast (g obj))
      | DoubleField g s \<Rightarrow> JFloat (g obj)
      | StringField g s \<Rightarrow> JString (g obj))"

definition buildInsertParams :: "('e, 'd) Traits \<Rightarrow> 'e \<Rightarrow> 'd json list" where
  "buildInsertParams T obj =
     for_each (columns T) (\<lambda>col params. params @ [to_json_field (member col) obj]) []"

definition buildUpdateSQL :: "('e, 'm) EntityTraits \<Rightarrow> string" where
  "buildUpdateSQL T =
     (let sql = ''UPDATE '';
          sql = sql @ tableName T;
          sql = sql @ '' SET '';
          first = True;
          index = (1::int);
          (sql, first, index) = for_each (columns T)
             (\<lambda>col (sql, first, index).
                if name col = primaryKey T then (sql, first, index)
                else
                  (let sql = (if \<not> first then sql @ '', '' else sql);
                       sql = sql @ name col;
                       sql = sql @ (''=$'' @ to_string index)
                   in (sql, False, index + 1)))
             (sql, first, index);
          sql = sql @ '' WHERE '';
          sql = sql @ primaryKey T;
          sql = sql @ (''=$'' @ to_string index)
      in sql)"

definition buildUpdateParams :: "('e, 'd) Traits \<Rightarrow> 'e \<Rightarrow> 'd json list" where
  "buildUpdateParams T obj =
     (let params = [];
          params = for_each (columns T)
             (\<lambda>col params.
                if name col \<noteq> primaryKey T then params @ [to_json_field (member col) obj]
                else params)
             params;
          params = for_each (columns T)
             (\<lambda>col params.
                if name col = primaryKey T then params @ [to_json_field (member col) obj]
                else params)
             params
      in params)"

definition buildDeleteSQL :: "('e, 'm) EntityTraits \<Rightarrow> string" where
  "buildDeleteSQL T =
     (let sql = ''DELETE FROM '';
          sql = sql @ tableName T;
          sql = sql @ '' WHERE '';
          sql = sql @ primaryKey T;
          sql = sql @ ''=$1''
      in sql)"

definition buildDeleteParams :: "('e, 'd) Traits \<Rightarrow> 'e \<Rightarrow> 'd json list" where
  "buildDeleteParams T obj =
     for_each (columns T)
       (\<lambda>col params.
          if name col = primaryKey T then params @ [to_json_field (member col) obj] else params)
       []"

section \<open>Auto JSON (to/from) from metadata\<close>

text \<open>
  \<^verbatim>\<open>autoToJson\<close> of the headers with the prepared-statement repository. \<open>j\<close> starts as
  null and every column assigns \<^verbatim>\<open>j[col.name]\<close>.
\<close>

definition autoToJson :: "('e, 'd) Traits \<Rightarrow> 'e \<Rightarrow> error + 'd json" where
  "autoToJson T obj =
     for_each_throwing (columns T)
       (\<lambda>col j. json_assign j (name col) (to_json_field (member col) obj))
       JNull"

text \<open>
  \<^verbatim>\<open>get_to\<close> per field type. An \<^verbatim>\<open>int\<close> accepts every number and a boolean
  (\<^verbatim>\<open>static_cast<int>\<close> of the stored value), a \<^verbatim>\<open>double\<close> accepts every number, a
  \<^verbatim>\<open>std::string\<close> accepts a string only; anything else is \<^verbatim>\<open>type_error\<close> 302.
\<close>

fun from_json_int :: "'d cxxlib \<Rightarrow> 'd json \<Rightarrow> error + 32 word" where
  "from_json_int L (JInt w) = Inr (ucast w)"
| "from_json_int L (JUInt w) = Inr (ucast w)"
| "from_json_int L (JFloat d) = Inr (double_to_int L d)"
| "from_json_int L (JBool b) = Inr (if b then 1 else 0)"
| "from_json_int L _ = Inl (JsonTypeError 302)"

fun from_json_double :: "'d cxxlib \<Rightarrow> 'd json \<Rightarrow> error + 'd" where
  "from_json_double L (JInt w) = Inr (i64_to_double L w)"
| "from_json_double L (JUInt w) = Inr (u64_to_double L w)"
| "from_json_double L (JFloat d) = Inr d"
| "from_json_double L _ = Inl (JsonTypeError 302)"

fun from_json_string :: "'d json \<Rightarrow> error + string" where
  "from_json_string (JString s) = Inr s"
| "from_json_string _ = Inl (JsonTypeError 302)"

definition get_to :: "'d cxxlib \<Rightarrow> 'd json \<Rightarrow> ('e, 'd) field \<Rightarrow> 'e \<Rightarrow> error + 'e" where
  \<comment> \<open>\<^verbatim>\<open>v.get_to(obj.*(col.member))\<close>\<close>
  "get_to L v m obj =
     (case m of
        IntField g s \<Rightarrow> (case from_json_int L v of Inl e \<Rightarrow> Inl e | Inr x \<Rightarrow> Inr (s x obj))
      | DoubleField g s \<Rightarrow> (case from_json_double L v of Inl e \<Rightarrow> Inl e | Inr x \<Rightarrow> Inr (s x obj))
      | StringField g s \<Rightarrow> (case from_json_string v of Inl e \<Rightarrow> Inl e | Inr x \<Rightarrow> Inr (s x obj)))"

definition autoFromJson :: "'d cxxlib \<Rightarrow> ('e, 'd) Traits \<Rightarrow> 'd json \<Rightarrow> error + 'e" where
  "autoFromJson L T j =
     (let obj = Entity T
      in for_each_throwing (columns T)
           (\<lambda>col obj.
              case json_at j (name col) of
                Inl e \<Rightarrow> Inl e
              | Inr v \<Rightarrow> get_to L v (member col) obj)
           obj)"

definition FXInstrument2_fromJson :: "'d cxxlib \<Rightarrow> 'd \<Rightarrow> 'd json \<Rightarrow> error + 'd FXInstrument2" where
  \<comment> \<open>\<open>zero\<close> is the \<^verbatim>\<open>double\<close> 0.0 of the member initialisers\<close>
  "FXInstrument2_fromJson L zero j = autoFromJson L (FXInstrument2_traits zero) j"

section \<open>Generic repository (prepared only)\<close>

text \<open>
  \<^verbatim>\<open>IDatabase2\<close> is the executor the repository calls through. Each virtual function is a
  function of its arguments that returns a result or the exception it throws.
\<close>

record 'd IDatabase2 =
  queryOnePrepared :: "string \<Rightarrow> 'd json list \<Rightarrow> error + 'd json"
  queryManyPrepared :: "string \<Rightarrow> 'd json list \<Rightarrow> error + 'd json list"
  executePrepared :: "string \<Rightarrow> 'd json list \<Rightarrow> error + 32 word"

text \<open>
  \<^verbatim>\<open>getById\<close> and \<^verbatim>\<open>getAll\<close> decode a row with \<^verbatim>\<open>T::fromJson\<close>, the static member of
  the entity class: the argument \<open>fromJson\<close>.
\<close>

definition Repository_getById ::
  "'d IDatabase2 \<Rightarrow> ('d json \<Rightarrow> error + 'e) \<Rightarrow> ('e, 'm) EntityTraits \<Rightarrow> 32 word
     \<Rightarrow> error + 'e" where
  "Repository_getById db fromJson T ident =
     (let sql = ''SELECT * FROM '' @ tableName T @ '' WHERE '' @ primaryKey T @ ''=$1''
      in case queryOnePrepared db sql [JInt (scast ident)] of
           Inl e \<Rightarrow> Inl e
         | Inr row \<Rightarrow> fromJson row)"

definition Repository_getAll ::
  "'d IDatabase2 \<Rightarrow> ('d json \<Rightarrow> error + 'e) \<Rightarrow> ('e, 'm) EntityTraits \<Rightarrow> error + 'e list" where
  "Repository_getAll db fromJson T =
     (let sql = ''SELECT * FROM '' @ tableName T
      in case queryManyPrepared db sql [] of
           Inl e \<Rightarrow> Inl e
         | Inr rows \<Rightarrow>
             for_each_throwing rows
               (\<lambda>r result. case fromJson r of
                              Inl e \<Rightarrow> Inl e
                            | Inr obj \<Rightarrow> Inr (result @ [obj]))
               [])"

definition Repository_insert :: "'d IDatabase2 \<Rightarrow> ('e, 'd) Traits \<Rightarrow> 'e \<Rightarrow> error + unit" where
  "Repository_insert db T obj =
     (case executePrepared db (buildInsertSQL T) (buildInsertParams T obj) of
        Inl e \<Rightarrow> Inl e
      | Inr affected \<Rightarrow> Inr ())"

definition Repository_update :: "'d IDatabase2 \<Rightarrow> ('e, 'd) Traits \<Rightarrow> 'e \<Rightarrow> error + unit" where
  "Repository_update db T obj =
     (case executePrepared db (buildUpdateSQL T) (buildUpdateParams T obj) of
        Inl e \<Rightarrow> Inl e
      | Inr affected \<Rightarrow> Inr ())"

definition Repository_remove :: "'d IDatabase2 \<Rightarrow> ('e, 'd) Traits \<Rightarrow> 'e \<Rightarrow> error + unit" where
  "Repository_remove db T obj =
     (case executePrepared db (buildDeleteSQL T) (buildDeleteParams T obj) of
        Inl e \<Rightarrow> Inl e
      | Inr affected \<Rightarrow> Inr ())"

section \<open>The \<^verbatim>\<open>hftools\<close> header: timestamps and metadata\<close>

subsection \<open>Timestamp handling\<close>

text \<open>
  \<^verbatim>\<open>utils::Timestamp\<close> is \<^verbatim>\<open>std::chrono::system_clock::time_point\<close>: a count of clock ticks
  since the epoch, here a 64-bit count of nanoseconds as in libstdc++. \<^verbatim>\<open>to_time_t\<close> is a
  \<^verbatim>\<open>duration_cast\<close> to seconds, which truncates towards zero. \<^verbatim>\<open>from_time_t\<close> multiplies
  the seconds by the ticks in a second in 64 bits: a product beyond the range of the count
  wraps around, as it does in the compiled program.
\<close>

type_synonym Timestamp = int

definition ticks_per_second :: int where
  "ticks_per_second = 1000000000"

definition to_time_t :: "Timestamp \<Rightarrow> int" where
  "to_time_t tp = sgn tp * (\<bar>tp\<bar> div ticks_per_second)"

definition from_time_t :: "int \<Rightarrow> Timestamp" where
  "from_time_t t = (t * ticks_per_second + 2 ^ 63) mod 2 ^ 64 - 2 ^ 63"

definition timePointToString :: "'d cxxlib \<Rightarrow> Timestamp \<Rightarrow> string" where
  "timePointToString L tp =
     (let tt = to_time_t tp;
          tm = gmtime L tt
      in put_time L tm ''%Y-%m-%d %H:%M:%S'')"

definition stringToTimePoint :: "'d cxxlib \<Rightarrow> string \<Rightarrow> Timestamp" where
  "stringToTimePoint L str =
     (if str = [] then 0
      else (let tm = tm_zero;
                tm = get_time L tm str ''%Y-%m-%d %H:%M:%S''
            in from_time_t (mktime L tm)))"

subsection \<open>Static reflection and metadata\<close>

text \<open>A member of this header is a \<^verbatim>\<open>Timestamp\<close>, which the JSON functions treat on their
  own, or of a type converted by \<^verbatim>\<open>nlohmann::json\<close>.\<close>

datatype ('e, 'd) hftools_member =
    Plain "('e, 'd) field"
  | TimestampMember "'e \<Rightarrow> Timestamp" "Timestamp \<Rightarrow> 'e \<Rightarrow> 'e"

type_synonym ('e, 'd) hftools_Traits = "('e, ('e, 'd) hftools_member) EntityTraits"

definition hftools_autoToJson ::
  "'d cxxlib \<Rightarrow> ('e, 'd) hftools_Traits \<Rightarrow> 'e \<Rightarrow> error + 'd json" where
  "hftools_autoToJson L T obj =
     for_each_throwing (columns T)
       (\<lambda>col j.
          case member col of
            TimestampMember g s \<Rightarrow> json_assign j (name col) (JString (timePointToString L (g obj)))
          | Plain m \<Rightarrow> json_assign j (name col) (to_json_field m obj))
       JNull"

definition hftools_autoFromJson ::
  "'d cxxlib \<Rightarrow> ('e, 'd) hftools_Traits \<Rightarrow> 'd json \<Rightarrow> error + 'e" where
  "hftools_autoFromJson L T j =
     (let obj = Entity T
      in for_each_throwing (columns T)
           (\<lambda>col obj.
              let key = name col
              in if json_contains j key then
                   (case json_at j key of
                      Inl e \<Rightarrow> Inl e
                    | Inr v \<Rightarrow>
                        if \<not> is_null v then
                          (case member col of
                             TimestampMember g s \<Rightarrow>
                               (case from_json_string v of
                                  Inl e \<Rightarrow> Inl e
                                | Inr str \<Rightarrow> Inr (s (stringToTimePoint L str) obj))
                           | Plain m \<Rightarrow> get_to L v m obj)
                        else Inr obj)
                 else Inr obj)
           obj)"

section \<open>A reference implementation of the library parameters\<close>

text \<open>
  To run the model on concrete inputs the library parameters need values. The ones below
  follow POSIX and the C++ standard on the inputs the program produces: the proleptic
  Gregorian calendar for \<^verbatim>\<open>gmtime\<close>, a time zone with a standard and a daylight-saving
  offset for \<^verbatim>\<open>mktime\<close>, the one format string of the header for \<^verbatim>\<open>put_time\<close> and
  \<^verbatim>\<open>get_time\<close>, and the reals in place of \<^verbatim>\<open>double\<close>.
\<close>

text \<open>Days since the epoch of a date, and the date of a day: years start on 1 March, so that
  the leap day is the last day of its year.\<close>

definition days_from_civil :: "int \<Rightarrow> int \<Rightarrow> int \<Rightarrow> int" where
  "days_from_civil y m d =
     (let y = (if m \<le> 2 then y - 1 else y);
          era = y div 400;
          yoe = y mod 400;
          doy = (153 * (if 2 < m then m - 3 else m + 9) + 2) div 5 + d - 1;
          doe = yoe * 365 + yoe div 4 - yoe div 100 + doy
      in era * 146097 + doe - 719468)"

definition year_of_era :: "int \<Rightarrow> int \<times> int" where
  \<comment> \<open>the year of a 400-year era and the day of that year, from the day of the era\<close>
  "year_of_era doe =
     (let c = min 3 (doe div 36524);
          doc = doe - c * 36524;
          q = min 24 (doc div 1461);
          doq = doc - q * 1461;
          a = min 3 (doq div 365);
          doy = doq - a * 365
      in (100 * c + 4 * q + a, doy))"

definition civil_from_days :: "int \<Rightarrow> int \<times> int \<times> int" where
  "civil_from_days z =
     (let z = z + 719468;
          era = z div 146097;
          doe = z mod 146097;
          (yoe, doy) = year_of_era doe;
          y = yoe + era * 400;
          mp = (5 * doy + 2) div 153;
          d = doy - (153 * mp + 2) div 5 + 1;
          m = (if mp < 10 then mp + 3 else mp - 9)
      in (if m \<le> 2 then y + 1 else y, m, d))"

definition reference_gmtime :: "int \<Rightarrow> tm" where
  "reference_gmtime t =
     (let days = t div 86400;
          secs = t mod 86400;
          (y, m, d) = civil_from_days days
      in \<lparr> tm_sec = secs mod 60, tm_min = secs div 60 mod 60, tm_hour = secs div 3600,
           tm_mday = d, tm_mon = m - 1, tm_year = y - 1900, tm_wday = (days + 4) mod 7,
           tm_yday = days - days_from_civil y 1 1, tm_isdst = 0 \<rparr>)"

definition reference_timegm :: "tm \<Rightarrow> int" where
  "reference_timegm t =
     days_from_civil (tm_year t + 1900) (tm_mon t + 1) (tm_mday t) * 86400
       + tm_hour t * 3600 + tm_min t * 60 + tm_sec t"

text \<open>
  A time zone: local time is \<open>std_offset\<close> seconds ahead of UTC, and \<open>dst_offset\<close> seconds
  during the periods of daylight saving time, given as intervals of UTC seconds.
\<close>

record zone =
  std_offset :: int
  dst_offset :: int
  dst_periods :: "(int \<times> int) list"

definition dst_in_effect :: "zone \<Rightarrow> int \<Rightarrow> bool" where
  "dst_in_effect Z s = list_ex (\<lambda>(a, b). a \<le> s \<and> s < b) (dst_periods Z)"

definition local_offset :: "zone \<Rightarrow> int \<Rightarrow> int" where
  \<comment> \<open>the offset of local time from UTC at the instant \<open>s\<close>\<close>
  "local_offset Z s = (if dst_in_effect Z s then dst_offset Z else std_offset Z)"

definition reference_mktime :: "zone \<Rightarrow> tm \<Rightarrow> int" where
  \<comment> \<open>the broken-down time is read as local time: as standard time when \<open>tm_isdst\<close> is
      zero, as daylight saving time when it is positive; a negative \<open>tm_isdst\<close> leaves the
      choice to the library\<close>
  "reference_mktime Z t =
     (if 0 < tm_isdst t then reference_timegm t - dst_offset Z
      else if tm_isdst t = 0 then reference_timegm t - std_offset Z
      else (let s = reference_timegm t - std_offset Z
            in if dst_in_effect Z s then reference_timegm t - dst_offset Z else s))"

definition two_digits :: "int \<Rightarrow> string" where
  "two_digits i = (if 0 \<le> i \<and> i < 10 then CHR ''0'' # to_string i else to_string i)"

definition reference_put_time :: "tm \<Rightarrow> string \<Rightarrow> string" where
  "reference_put_time t fmt =
     (if fmt = ''%Y-%m-%d %H:%M:%S''
      then to_string (tm_year t + 1900) @ ''-'' @ two_digits (tm_mon t + 1) @ ''-'' @
           two_digits (tm_mday t) @ '' '' @ two_digits (tm_hour t) @ '':'' @
           two_digits (tm_min t) @ '':'' @ two_digits (tm_sec t)
      else [])"

definition is_digit :: "char \<Rightarrow> bool" where
  "is_digit c = ((48::nat) \<le> of_char c \<and> of_char c \<le> (57::nat))"

definition digits_value :: "string \<Rightarrow> int" where
  "digits_value ds = foldl (\<lambda>acc c. 10 * acc + (int (of_char c) - 48)) 0 ds"

definition number_at :: "string \<Rightarrow> nat \<Rightarrow> nat \<Rightarrow> int option" where
  "number_at str pos len =
     (let ds = take len (drop pos str)
      in if length ds = len \<and> list_all is_digit ds then Some (digits_value ds) else None)"

definition reference_get_time :: "tm \<Rightarrow> string \<Rightarrow> string \<Rightarrow> tm" where
  \<comment> \<open>the six members the format names are set, the others are left as they were\<close>
  "reference_get_time t str fmt =
     (if fmt = ''%Y-%m-%d %H:%M:%S'' \<and> length str = 19
         \<and> map ((!) str) [4, 7, 10, 13, 16] = ''-- ::''
      then (case (number_at str 0 4, number_at str 5 2, number_at str 8 2,
                  number_at str 11 2, number_at str 14 2, number_at str 17 2) of
              (Some y, Some mo, Some d, Some h, Some mi, Some s) \<Rightarrow>
                t\<lparr> tm_sec := s, tm_min := mi, tm_hour := h, tm_mday := d,
                   tm_mon := mo - 1, tm_year := y - 1900 \<rparr>
            | _ \<Rightarrow> t)
      else t)"

definition zone_lib :: "zone \<Rightarrow> real cxxlib" where
  "zone_lib Z =
     \<lparr> i64_to_double = (\<lambda>w. real_of_int (sint w)),
       u64_to_double = (\<lambda>w. real (unat w)),
       double_to_int = (\<lambda>d. word_of_int (sgn \<lfloor>d\<rfloor> * \<lfloor>\<bar>d\<bar>\<rfloor>)),
       gmtime = reference_gmtime,
       mktime = reference_mktime Z,
       put_time = reference_put_time,
       get_time = reference_get_time \<rparr>"

text \<open>The library in a zone without daylight saving time, \<open>offset\<close> seconds ahead of UTC.\<close>

definition reference_lib :: "int \<Rightarrow> real cxxlib" where
  "reference_lib offset =
     zone_lib \<lparr> std_offset = offset, dst_offset = offset, dst_periods = [] \<rparr>"

text \<open>
  The header declares no entity. \<open>Stamped\<close> is an entity with a member of each kind the
  header treats differently, to run its functions on.
\<close>

record Stamped =
  st_id :: "32 word"
  st_label :: string
  st_at :: Timestamp

definition Stamped_traits :: "(Stamped, real) hftools_Traits" where
  "Stamped_traits =
     \<lparr> Entity = \<lparr> st_id = 0, st_label = [], st_at = 0 \<rparr>,
       tableName = ''Stamped'',
       primaryKey = ''id'',
       columns =
         [ \<lparr> name = ''id'', member = Plain (IntField st_id (\<lambda>v e. e\<lparr>st_id := v\<rparr>)) \<rparr>,
           \<lparr> name = ''label'', member = Plain (StringField st_label (\<lambda>v e. e\<lparr>st_label := v\<rparr>)) \<rparr>,
           \<lparr> name = ''at'', member = TimestampMember st_at (\<lambda>v e. e\<lparr>st_at := v\<rparr>) \<rparr> ] \<rparr>"

section \<open>Notions used in the statements\<close>

text \<open>The text of a comma-separated list, and the placeholders \<open>$1\<close> to \<open>$n\<close>.\<close>

fun comma_rest :: "string list \<Rightarrow> string" where
  "comma_rest [] = []"
| "comma_rest (x # xs) = '', '' @ x @ comma_rest xs"

fun comma_separated :: "string list \<Rightarrow> string" where
  "comma_separated [] = []"
| "comma_separated (x # xs) = x @ comma_rest xs"

fun placeholders_from :: "int \<Rightarrow> nat \<Rightarrow> string list" where
  "placeholders_from i 0 = []"
| "placeholders_from i (Suc n) = (''$'' @ to_string i) # placeholders_from (i + 1) n"

definition placeholders :: "nat \<Rightarrow> string list" where
  "placeholders n = placeholders_from 1 n"

text \<open>The assignments \<open>name=$i\<close> of a \<open>SET\<close> clause, numbered from \<open>i\<close>.\<close>

fun assignments :: "int \<Rightarrow> 'm Column list \<Rightarrow> string list" where
  "assignments i [] = []"
| "assignments i (c # cs) = (name c @ ''=$'' @ to_string i) # assignments (i + 1) cs"

text \<open>The JSON value \<^verbatim>\<open>hftools::model::autoToJson\<close> stores for a member.\<close>

definition hftools_to_json :: "'d cxxlib \<Rightarrow> ('e, 'd) hftools_member \<Rightarrow> 'e \<Rightarrow> 'd json" where
  "hftools_to_json L m obj =
     (case m of
        TimestampMember g s \<Rightarrow> JString (timePointToString L (g obj))
      | Plain m \<Rightarrow> to_json_field m obj)"

text \<open>
  The value of a member as a tagged scalar, and the write through a member pointer of such
  a value. A member pointer is lawful when reading after a write gives the value written;
  two member pointers are independent when a write through the first leaves what the
  second reads. Distinct members of a C++ object are both.
\<close>

datatype 'd FieldValue = IntValue "32 word" | FloatValue 'd | TextValue string | TimeValue Timestamp

fun field_value :: "('e, 'd) field \<Rightarrow> 'e \<Rightarrow> 'd FieldValue" where
  "field_value (IntField g s) e = IntValue (g e)"
| "field_value (DoubleField g s) e = FloatValue (g e)"
| "field_value (StringField g s) e = TextValue (g e)"

fun hftools_field_value :: "('e, 'd) hftools_member \<Rightarrow> 'e \<Rightarrow> 'd FieldValue" where
  "hftools_field_value (Plain m) e = field_value m e"
| "hftools_field_value (TimestampMember g s) e = TimeValue (g e)"

fun field_store :: "('e, 'd) field \<Rightarrow> 'd FieldValue \<Rightarrow> 'e \<Rightarrow> 'e" where
  "field_store (IntField g s) (IntValue v) e = s v e"
| "field_store (DoubleField g s) (FloatValue v) e = s v e"
| "field_store (StringField g s) (TextValue v) e = s v e"
| "field_store _ _ e = e"

fun hftools_field_store :: "('e, 'd) hftools_member \<Rightarrow> 'd FieldValue \<Rightarrow> 'e \<Rightarrow> 'e" where
  "hftools_field_store (Plain m) v e = field_store m v e"
| "hftools_field_store (TimestampMember g s) (TimeValue v) e = s v e"
| "hftools_field_store (TimestampMember g s) _ e = e"

fun field_lawful :: "('e, 'd) field \<Rightarrow> bool" where
  "field_lawful (IntField g s) = (\<forall>v e. g (s v e) = v)"
| "field_lawful (DoubleField g s) = (\<forall>v e. g (s v e) = v)"
| "field_lawful (StringField g s) = (\<forall>v e. g (s v e) = v)"

fun member_lawful :: "('e, 'd) hftools_member \<Rightarrow> bool" where
  "member_lawful (Plain m) = field_lawful m"
| "member_lawful (TimestampMember g s) = (\<forall>v e. g (s v e) = v)"

definition member_independent ::
  "('e, 'd) hftools_member \<Rightarrow> ('e, 'd) hftools_member \<Rightarrow> bool" where
  "member_independent m m' =
     (\<forall>v e. hftools_field_value m' (hftools_field_store m v e) = hftools_field_value m' e)"

definition lawful_columns :: "('e, 'd) hftools_member Column list \<Rightarrow> bool" where
  "lawful_columns cols =
     (distinct (map name cols)
      \<and> (\<forall>c\<in>set cols. member_lawful (member c))
      \<and> (\<forall>c\<in>set cols. \<forall>c'\<in>set cols.
            name c \<noteq> name c' \<longrightarrow> member_independent (member c) (member c')))"

text \<open>A column list of the prepared-statement headers, seen as one of the \<^verbatim>\<open>hftools\<close>
  header without \<^verbatim>\<open>Timestamp\<close> members.\<close>

definition plain_column :: "('e, 'd) field Column \<Rightarrow> ('e, 'd) hftools_member Column" where
  "plain_column c = \<lparr> name = name c, member = Plain (member c) \<rparr>"

definition plain_traits :: "('e, 'd) Traits \<Rightarrow> ('e, 'd) hftools_Traits" where
  "plain_traits T =
     \<lparr> Entity = Entity T, tableName = tableName T, primaryKey = primaryKey T,
       columns = map plain_column (columns T) \<rparr>"

text \<open>What decoding gives for a member of the entity that was encoded.\<close>

definition decoded_value :: "'d cxxlib \<Rightarrow> ('e, 'd) hftools_member \<Rightarrow> 'e \<Rightarrow> 'd FieldValue" where
  "decoded_value L m e =
     (case m of
        Plain f \<Rightarrow> field_value f e
      | TimestampMember g s \<Rightarrow> TimeValue (stringToTimePoint L (timePointToString L (g e))))"

text \<open>The bodies of the two decoding loops, named.\<close>

definition decode_step ::
  "'d cxxlib \<Rightarrow> 'd json \<Rightarrow> ('e, 'd) field Column \<Rightarrow> 'e \<Rightarrow> error + 'e" where
  "decode_step L j =
     (\<lambda>col obj.
              case json_at j (name col) of
                Inl e \<Rightarrow> Inl e
              | Inr v \<Rightarrow> get_to L v (member col) obj)"

definition hftools_decode_step ::
  "'d cxxlib \<Rightarrow> 'd json \<Rightarrow> ('e, 'd) hftools_member Column \<Rightarrow> 'e \<Rightarrow> error + 'e" where
  "hftools_decode_step L j =
           (\<lambda>col obj.
              let key = name col
              in if json_contains j key then
                   (case json_at j key of
                      Inl e \<Rightarrow> Inl e
                    | Inr v \<Rightarrow>
                        if \<not> is_null v then
                          (case member col of
                             TimestampMember g s \<Rightarrow>
                               (case from_json_string v of
                                  Inl e \<Rightarrow> Inl e
                                | Inr str \<Rightarrow> Inr (s (stringToTimePoint L str) obj))
                           | Plain m \<Rightarrow> get_to L v m obj)
                        else Inr obj)
                 else Inr obj)"






text \<open>The broken-down times whose calendar members \<^verbatim>\<open>put_time\<close> renders in four and two
  digits.\<close>

definition calendar_fields :: "tm \<Rightarrow> bool" where
  "calendar_fields t =
     (1000 \<le> tm_year t + 1900 \<and> tm_year t + 1900 < 10000
      \<and> 0 \<le> tm_mon t + 1 \<and> tm_mon t + 1 < 100
      \<and> 0 \<le> tm_mday t \<and> tm_mday t < 100
      \<and> 0 \<le> tm_hour t \<and> tm_hour t < 100
      \<and> 0 \<le> tm_min t \<and> tm_min t < 100
      \<and> 0 \<le> tm_sec t \<and> tm_sec t < 100)"

section \<open>Concrete inputs\<close>

definition sample_instrument :: "real FXInstrument2" where
  "sample_instrument =
     \<lparr> fx2_uniqueId = 0, fx2_internalName = [], fx2_id = 42, fx2_userId = 7,
       fx2_instrumentId = 3, fx2_side = ''BUY'', fx2_quantity = 1.5, fx2_price = 2,
       fx2_timestamp = ''2024-01-01 00:00:00'' \<rparr>"

text \<open>An executor that reports \<open>n\<close> affected rows for every statement.\<close>

definition counting_db :: "32 word \<Rightarrow> real IDatabase2" where
  "counting_db n = \<lparr> queryOnePrepared = (\<lambda>sql params. Inr JNull),
                     queryManyPrepared = (\<lambda>sql params. Inr []),
                     executePrepared = (\<lambda>sql params. Inr n) \<rparr>"

text \<open>A stored row of \<^verbatim>\<open>FXInstrument2\<close> and an executor that finds it for every query.\<close>

definition stored_row :: "real json" where
  "stored_row =
     JObject [(''id'', JInt 42), (''userId'', JInt 7), (''instrumentId'', JInt 3),
              (''side'', JString ''BUY''), (''quantity'', JFloat 1.5), (''price'', JFloat 2),
              (''timestamp'', JString ''2024-01-01 00:00:00'')]"

definition one_row_db :: "real IDatabase2" where
  "one_row_db = \<lparr> queryOnePrepared = (\<lambda>sql params. Inr stored_row),
                    queryManyPrepared = (\<lambda>sql params. Inr [stored_row]),
                    executePrepared = (\<lambda>sql params. Inr 1) \<rparr>"

definition stamped_sample :: Stamped where
  "stamped_sample = \<lparr> st_id = 5, st_label = ''tick'', st_at = 1700000000123456789 \<rparr>"

definition subsecond_sample :: Stamped where
  "subsecond_sample = \<lparr> st_id = 5, st_label = ''tick'', st_at = 1 \<rparr>"



text \<open>Central European time in 2023: one hour ahead of UTC, two hours from 26 March
  01:00 UTC to 29 October 01:00 UTC.\<close>

definition central_europe :: zone where
  "central_europe =
     \<lparr> std_offset = 3600, dst_offset = 7200, dst_periods = [(1679792400, 1698541200)] \<rparr>"

text \<open>1 July 2023, 12:00:00 UTC and a fraction of a second: daylight saving time is in
  effect in central Europe.\<close>

definition summer_instant :: Timestamp where
  "summer_instant = 1688212800123456789"

section \<open>The loops of the builders in closed form\<close>

lemma to_string_digits:
  "to_string 1 = ''1''" "to_string 2 = ''2''" "to_string 3 = ''3''" "to_string 4 = ''4''"
  "to_string 5 = ''5''" "to_string 6 = ''6''" "to_string 7 = ''7''" "to_string 8 = ''8''"
  by (simp_all add: to_string_def nat_to_string.simps digit_char_def)

lemma names_loop_rest:
  fixes f :: "'m Column \<Rightarrow> string \<times> bool \<Rightarrow> string \<times> bool"
  defines "f \<equiv> \<lambda>col (sql, first).
      (let sql = (if \<not> first then sql @ '', '' else sql); sql = sql @ name col in (sql, False))"
  shows "for_each cols f (sql, False) = (sql @ comma_rest (map name cols), False)"
proof -
  have app: "\<And>c s. f c (s, False) = (s @ '', '' @ name c, False)"
    by (simp add: f_def)
  show ?thesis
    by (induction cols arbitrary: sql) (simp_all add: app)
qed

lemma names_loop:
  fixes f :: "'m Column \<Rightarrow> string \<times> bool \<Rightarrow> string \<times> bool"
  defines "f \<equiv> \<lambda>col (sql, first).
      (let sql = (if \<not> first then sql @ '', '' else sql); sql = sql @ name col in (sql, False))"
  shows "for_each cols f (sql, True) = (sql @ comma_separated (map name cols), cols = [])"
proof (cases cols)
  case Nil
  then show ?thesis by simp
next
  case (Cons c cs)
  have app: "f c (sql, True) = (sql @ name c, False)"
    by (simp add: f_def)
  have "for_each cs f (sql @ name c, False) = ((sql @ name c) @ comma_rest (map name cs), False)"
    unfolding f_def by (rule names_loop_rest)
  then show ?thesis
    by (simp add: Cons app)
qed

lemma placeholder_loop_rest:
  fixes f :: "'m Column \<Rightarrow> string \<times> bool \<times> int \<Rightarrow> string \<times> bool \<times> int"
  defines "f \<equiv> \<lambda>col (sql, first, index).
      (let sql = (if \<not> first then sql @ '', '' else sql); sql = sql @ (''$'' @ to_string index)
       in (sql, False, index + 1))"
  shows "for_each cols f (sql, False, i)
   = (sql @ comma_rest (placeholders_from i (length cols)), False, i + int (length cols))"
proof -
  have app: "\<And>c s k. f c (s, False, k) = (s @ '', '' @ ''$'' @ to_string k, False, k + 1)"
    by (simp add: f_def)
  show ?thesis
    by (induction cols arbitrary: sql i) (simp_all add: app)
qed

lemma placeholder_loop:
  fixes f :: "'m Column \<Rightarrow> string \<times> bool \<times> int \<Rightarrow> string \<times> bool \<times> int"
  defines "f \<equiv> \<lambda>col (sql, first, index).
      (let sql = (if \<not> first then sql @ '', '' else sql); sql = sql @ (''$'' @ to_string index)
       in (sql, False, index + 1))"
  shows "for_each cols f (sql, True, 1)
   = (sql @ comma_separated (placeholders (length cols)), cols = [], 1 + int (length cols))"
proof (cases cols)
  case Nil
  then show ?thesis by (simp add: placeholders_def)
next
  case (Cons c cs)
  have app: "f c (sql, True, 1) = (sql @ ''$'' @ to_string 1, False, 1 + 1)"
    by (simp add: f_def)
  have "for_each cs f (sql @ ''$'' @ to_string 1, False, 1 + 1)
      = ((sql @ ''$'' @ to_string 1) @ comma_rest (placeholders_from (1 + 1) (length cs)), False,
         (1 + 1) + int (length cs))"
    unfolding f_def by (rule placeholder_loop_rest)
  then show ?thesis
    by (simp add: Cons app placeholders_def)
qed

lemmas names_loop_unfolded = names_loop [unfolded Let_def]

lemmas placeholder_loop_unfolded = placeholder_loop [unfolded Let_def]

lemma buildInsertSQL_text:
  "buildInsertSQL T =
     ''INSERT INTO '' @ tableName T @ '' ('' @ comma_separated (map name (columns T)) @
     '') VALUES ('' @ comma_separated (placeholders (length (columns T))) @ '')''"
  unfolding buildInsertSQL_def Let_def names_loop_unfolded placeholder_loop_unfolded
  by simp

lemma insert_params_loop:
  "for_each cols (\<lambda>col params. params @ [to_json_field (member col) obj]) acc
   = acc @ map (\<lambda>col. to_json_field (member col) obj) cols"
  by (induction cols arbitrary: acc) simp_all

lemma buildInsertParams_map:
  "buildInsertParams T obj = map (\<lambda>col. to_json_field (member col) obj) (columns T)"
  by (simp add: buildInsertParams_def insert_params_loop)

lemma length_placeholders_from: "length (placeholders_from i n) = n"
  by (induction n arbitrary: i) simp_all

lemma nth_placeholders_from:
  "k < n \<Longrightarrow> placeholders_from i n ! k = ''$'' @ to_string (i + int k)"
proof (induction n arbitrary: i k)
  case 0
  then show ?case by simp
next
  case (Suc n)
  show ?case
  proof (cases k)
    case 0
    then show ?thesis by simp
  next
    case (Suc k')
    with Suc.prems have "k' < n" by simp
    from Suc.IH [OF this, of "i + 1"] show ?thesis
      by (simp add: Suc add.assoc)
  qed
qed

lemma update_loop_rest:
  fixes pk :: string
    and f :: "'m Column \<Rightarrow> string \<times> bool \<times> int \<Rightarrow> string \<times> bool \<times> int"
  defines "f \<equiv> \<lambda>col (sql, first, index).
                if name col = pk then (sql, first, index)
                else
                  (let sql = (if \<not> first then sql @ '', '' else sql);
                       sql = sql @ name col;
                       sql = sql @ (''=$'' @ to_string index)
                   in (sql, False, index + 1))"
  shows "for_each cols f (sql, False, i)
   = (sql @ comma_rest (assignments i (filter (\<lambda>c. name c \<noteq> pk) cols)), False,
      i + int (length (filter (\<lambda>c. name c \<noteq> pk) cols)))"
proof -
  have skip: "\<And>c s b k. name c = pk \<Longrightarrow> f c (s, b, k) = (s, b, k)"
    by (simp add: f_def)
  have app: "\<And>c s k. name c \<noteq> pk \<Longrightarrow>
               f c (s, False, k) = (s @ '', '' @ name c @ ''=$'' @ to_string k, False, k + 1)"
    by (simp add: f_def)
  show ?thesis
  proof (induction cols arbitrary: sql i)
    case Nil
    then show ?case by simp
  next
    case (Cons c cols)
    show ?case
    proof (cases "name c = pk")
      case True
      then show ?thesis by (simp add: skip Cons.IH)
    next
      case False
      then show ?thesis by (simp add: app Cons.IH)
    qed
  qed
qed

lemma update_loop:
  fixes pk :: string
    and f :: "'m Column \<Rightarrow> string \<times> bool \<times> int \<Rightarrow> string \<times> bool \<times> int"
  defines "f \<equiv> \<lambda>col (sql, first, index).
                if name col = pk then (sql, first, index)
                else
                  (let sql = (if \<not> first then sql @ '', '' else sql);
                       sql = sql @ name col;
                       sql = sql @ (''=$'' @ to_string index)
                   in (sql, False, index + 1))"
  shows "for_each cols f (sql, True, i)
   = (sql @ comma_separated (assignments i (filter (\<lambda>c. name c \<noteq> pk) cols)),
      filter (\<lambda>c. name c \<noteq> pk) cols = [],
      i + int (length (filter (\<lambda>c. name c \<noteq> pk) cols)))"
proof -
  have skip: "\<And>c s b k. name c = pk \<Longrightarrow> f c (s, b, k) = (s, b, k)"
    by (simp add: f_def)
  have app: "\<And>c s k. name c \<noteq> pk \<Longrightarrow>
               f c (s, True, k) = (s @ name c @ ''=$'' @ to_string k, False, k + 1)"
    by (simp add: f_def)
  have rest: "\<And>cols s k. for_each cols f (s, False, k)
     = (s @ comma_rest (assignments k (filter (\<lambda>c. name c \<noteq> pk) cols)), False,
        k + int (length (filter (\<lambda>c. name c \<noteq> pk) cols)))"
    unfolding f_def by (rule update_loop_rest)
  show ?thesis
  proof (induction cols)
    case Nil
    then show ?case by simp
  next
    case (Cons c cols)
    show ?case
    proof (cases "name c = pk")
      case True
      then show ?thesis by (simp add: skip Cons.IH)
    next
      case False
      then show ?thesis by (simp add: app rest)
    qed
  qed
qed

lemmas update_loop_unfolded = update_loop [unfolded Let_def]

lemma buildUpdateSQL_text:
  "buildUpdateSQL T =
     ''UPDATE '' @ tableName T @ '' SET '' @
     comma_separated (assignments 1 (filter (\<lambda>c. name c \<noteq> primaryKey T) (columns T))) @
     '' WHERE '' @ primaryKey T @ ''=$'' @
     to_string (1 + int (length (filter (\<lambda>c. name c \<noteq> primaryKey T) (columns T))))"
  unfolding buildUpdateSQL_def Let_def update_loop_unfolded
  by simp


section \<open>Statement texts and parameter lists of the registered types\<close>

text \<open>
  C3. For the traits of \<^verbatim>\<open>FXInstrument2\<close>, \<^verbatim>\<open>buildInsertSQL\<close> yields the statement that
  names all seven columns in declared order, the primary key among them, and binds them
  to the positional placeholders \<open>$1\<close> to \<open>$7\<close>; no value of an entity occurs in it.
\<close>

theorem FXInstrument2_insert_text:
  "buildInsertSQL (FXInstrument2_traits zero) =
     ''INSERT INTO FXInstrument2 (id, userId, instrumentId, side, quantity, price, timestamp) VALUES ($1, $2, $3, $4, $5, $6, $7)''"
  by (simp add: buildInsertSQL_def FXInstrument2_traits_def FXInstrument2_columns_def
      to_string_digits)

text \<open>
  C1. For the traits of \<^verbatim>\<open>FXInstrument2\<close>, \<^verbatim>\<open>buildUpdateSQL\<close> yields the statement whose
  \<open>SET\<close> clause lists the six columns other than the primary key in declared order with
  \<open>$1\<close> to \<open>$6\<close> and whose \<open>WHERE\<close> clause binds the primary key to \<open>$7\<close>; and for every
  entity \<^verbatim>\<open>buildUpdateParams\<close> yields the seven values userId, instrumentId, side,
  quantity, price, timestamp, id in that order.
\<close>

theorem FXInstrument2_update_text_and_params:
  "buildUpdateSQL (FXInstrument2_traits zero) =
     ''UPDATE FXInstrument2 SET userId=$1, instrumentId=$2, side=$3, quantity=$4, price=$5, timestamp=$6 WHERE id=$7''
   \<and> buildUpdateParams (FXInstrument2_traits zero) e =
     [JInt (scast (fx2_userId e)), JInt (scast (fx2_instrumentId e)), JString (fx2_side e),
      JFloat (fx2_quantity e), JFloat (fx2_price e), JString (fx2_timestamp e),
      JInt (scast (fx2_id e))]"
  by (simp add: buildUpdateSQL_def buildUpdateParams_def FXInstrument2_traits_def
      FXInstrument2_columns_def to_json_field_def to_string_digits)

text \<open>
  C9. The traits of \<^verbatim>\<open>FXInstrument\<close> in the first variant name the table \<open>employees\<close>:
  whatever the columns of that type, the insert, update and delete statements built for
  it, and the select-by-id and select-all statements the repository sends to the executor,
  are all on \<open>employees\<close>; those of \<^verbatim>\<open>FXInstrument2\<close> in the second variant are on
  \<open>FXInstrument2\<close>.
\<close>

theorem table_names_of_the_two_variants:
  "buildInsertSQL (FXInstrument_traits zero cols) =
     ''INSERT INTO employees ('' @ comma_separated (map name cols) @ '') VALUES (''
       @ comma_separated (placeholders (length cols)) @ '')''
   \<and> buildUpdateSQL (FXInstrument_traits zero cols) =
     ''UPDATE employees SET ''
       @ comma_separated (assignments 1 (filter (\<lambda>c. name c \<noteq> ''id'') cols))
       @ '' WHERE id=$'' @ to_string (1 + int (length (filter (\<lambda>c. name c \<noteq> ''id'') cols)))
   \<and> buildDeleteSQL (FXInstrument_traits zero cols) = ''DELETE FROM employees WHERE id=$1''
   \<and> Repository_getById db fromJson (FXInstrument_traits zero cols) ident =
       (case queryOnePrepared db ''SELECT * FROM employees WHERE id=$1'' [JInt (scast ident)] of
          Inl err \<Rightarrow> Inl err
        | Inr row \<Rightarrow> fromJson row)
   \<and> Repository_getAll db fromJson (FXInstrument_traits zero cols) =
       (case queryManyPrepared db ''SELECT * FROM employees'' [] of
          Inl err \<Rightarrow> Inl err
        | Inr rs \<Rightarrow>
            for_each_throwing rs
              (\<lambda>r result. case fromJson r of
                             Inl err \<Rightarrow> Inl err
                           | Inr obj \<Rightarrow> Inr (result @ [obj]))
              [])
   \<and> buildInsertSQL (FXInstrument2_traits zero2) =
     ''INSERT INTO FXInstrument2 (id, userId, instrumentId, side, quantity, price, timestamp) VALUES ($1, $2, $3, $4, $5, $6, $7)''
   \<and> buildUpdateSQL (FXInstrument2_traits zero2) =
     ''UPDATE FXInstrument2 SET userId=$1, instrumentId=$2, side=$3, quantity=$4, price=$5, timestamp=$6 WHERE id=$7''
   \<and> buildDeleteSQL (FXInstrument2_traits zero2) = ''DELETE FROM FXInstrument2 WHERE id=$1''
   \<and> Repository_getById db2 (FXInstrument2_fromJson L zero2) (FXInstrument2_traits zero2) ident =
       (case queryOnePrepared db2 ''SELECT * FROM FXInstrument2 WHERE id=$1'' [JInt (scast ident)] of
          Inl err \<Rightarrow> Inl err
        | Inr row \<Rightarrow> FXInstrument2_fromJson L zero2 row)
   \<and> Repository_getAll db2 (FXInstrument2_fromJson L zero2) (FXInstrument2_traits zero2) =
       (case queryManyPrepared db2 ''SELECT * FROM FXInstrument2'' [] of
          Inl err \<Rightarrow> Inl err
        | Inr rs \<Rightarrow>
            for_each_throwing rs
              (\<lambda>r result. case FXInstrument2_fromJson L zero2 r of
                             Inl err \<Rightarrow> Inl err
                           | Inr obj \<Rightarrow> Inr (result @ [obj]))
              [])"
proof -
  have names: "tableName (FXInstrument_traits zero cols) = ''employees''"
    "primaryKey (FXInstrument_traits zero cols) = ''id''"
    "columns (FXInstrument_traits zero cols) = cols"
    "tableName (FXInstrument2_traits zero2) = ''FXInstrument2''"
    "primaryKey (FXInstrument2_traits zero2) = ''id''"
    by (simp_all add: FXInstrument_traits_def FXInstrument2_traits_def)
  have i1: "buildInsertSQL (FXInstrument_traits zero cols) =
     ''INSERT INTO employees ('' @ comma_separated (map name cols) @ '') VALUES (''
       @ comma_separated (placeholders (length cols)) @ '')''"
    by (simp add: buildInsertSQL_text names)
  have u1: "buildUpdateSQL (FXInstrument_traits zero cols) =
     ''UPDATE employees SET ''
       @ comma_separated (assignments 1 (filter (\<lambda>c. name c \<noteq> ''id'') cols))
       @ '' WHERE id=$'' @ to_string (1 + int (length (filter (\<lambda>c. name c \<noteq> ''id'') cols)))"
    by (simp add: buildUpdateSQL_text names)
  have d1: "buildDeleteSQL (FXInstrument_traits zero cols) = ''DELETE FROM employees WHERE id=$1''"
    by (simp add: buildDeleteSQL_def names)
  have g1: "Repository_getById db fromJson (FXInstrument_traits zero cols) ident =
       (case queryOnePrepared db ''SELECT * FROM employees WHERE id=$1'' [JInt (scast ident)] of
          Inl err \<Rightarrow> Inl err
        | Inr row \<Rightarrow> fromJson row)"
    by (simp add: Repository_getById_def names)
  have a1: "Repository_getAll db fromJson (FXInstrument_traits zero cols) =
       (case queryManyPrepared db ''SELECT * FROM employees'' [] of
          Inl err \<Rightarrow> Inl err
        | Inr rs \<Rightarrow>
            for_each_throwing rs
              (\<lambda>r result. case fromJson r of
                             Inl err \<Rightarrow> Inl err
                           | Inr obj \<Rightarrow> Inr (result @ [obj]))
              [])"
    by (simp add: Repository_getAll_def names)
  have i2: "buildInsertSQL (FXInstrument2_traits zero2) =
     ''INSERT INTO FXInstrument2 (id, userId, instrumentId, side, quantity, price, timestamp) VALUES ($1, $2, $3, $4, $5, $6, $7)''"
    by (simp add: buildInsertSQL_def FXInstrument2_traits_def FXInstrument2_columns_def
        to_string_digits)
  have u2: "buildUpdateSQL (FXInstrument2_traits zero2) =
     ''UPDATE FXInstrument2 SET userId=$1, instrumentId=$2, side=$3, quantity=$4, price=$5, timestamp=$6 WHERE id=$7''"
    by (simp add: buildUpdateSQL_def FXInstrument2_traits_def FXInstrument2_columns_def
        to_string_digits)
  have d2: "buildDeleteSQL (FXInstrument2_traits zero2) = ''DELETE FROM FXInstrument2 WHERE id=$1''"
    by (simp add: buildDeleteSQL_def names)
  have g2: "Repository_getById db2 (FXInstrument2_fromJson L zero2) (FXInstrument2_traits zero2) ident =
       (case queryOnePrepared db2 ''SELECT * FROM FXInstrument2 WHERE id=$1'' [JInt (scast ident)] of
          Inl err \<Rightarrow> Inl err
        | Inr row \<Rightarrow> FXInstrument2_fromJson L zero2 row)"
    by (simp add: Repository_getById_def names)
  have a2: "Repository_getAll db2 (FXInstrument2_fromJson L zero2) (FXInstrument2_traits zero2) =
       (case queryManyPrepared db2 ''SELECT * FROM FXInstrument2'' [] of
          Inl err \<Rightarrow> Inl err
        | Inr rs \<Rightarrow>
            for_each_throwing rs
              (\<lambda>r result. case FXInstrument2_fromJson L zero2 r of
                             Inl err \<Rightarrow> Inl err
                           | Inr obj \<Rightarrow> Inr (result @ [obj]))
              [])"
    by (simp add: Repository_getAll_def names)
  show ?thesis
    by (rule conjI [OF i1 conjI [OF u1 conjI [OF d1 conjI [OF g1 conjI [OF a1
          conjI [OF i2 conjI [OF u2 conjI [OF d2 conjI [OF g2 a2]]]]]]]]])
qed

section \<open>Placeholders and parameters of an insert\<close>

text \<open>
  C2. For every traits record and every entity: the insert statement lists the column
  names in declared order and then the placeholders \<open>$1\<close> to \<open>$n\<close>, \<open>n\<close> the number of
  columns; \<^verbatim>\<open>buildInsertParams\<close> has \<open>n\<close> elements; and for every \<open>N\<close> from 1 to \<open>n\<close>
  the \<open>N\<close>th placeholder is \<open>$N\<close> and the \<open>N\<close>th parameter is the value of the \<open>N\<close>th
  column.
\<close>

theorem insert_params_align_with_placeholders:
  "buildInsertSQL T =
     ''INSERT INTO '' @ tableName T @ '' ('' @ comma_separated (map name (columns T)) @
     '') VALUES ('' @ comma_separated (placeholders (length (columns T))) @ '')''
   \<and> length (placeholders (length (columns T))) = length (columns T)
   \<and> length (buildInsertParams T e) = length (columns T)
   \<and> (\<forall>N. 1 \<le> N \<and> N \<le> length (columns T) \<longrightarrow>
         placeholders (length (columns T)) ! (N - 1) = ''$'' @ to_string (int N)
         \<and> buildInsertParams T e ! (N - 1) = to_json_field (member (columns T ! (N - 1))) e)"
proof (intro conjI allI impI)
  show "buildInsertSQL T =
     ''INSERT INTO '' @ tableName T @ '' ('' @ comma_separated (map name (columns T)) @
     '') VALUES ('' @ comma_separated (placeholders (length (columns T))) @ '')''"
    by (rule buildInsertSQL_text)
  show "length (placeholders (length (columns T))) = length (columns T)"
    by (simp add: placeholders_def length_placeholders_from)
  show "length (buildInsertParams T e) = length (columns T)"
    by (simp add: buildInsertParams_map)
next
  fix N assume N: "1 \<le> N \<and> N \<le> length (columns T)"
  then have lt: "N - 1 < length (columns T)" by arith
  from N have "1 + int (N - 1) = int N" by arith
  with nth_placeholders_from [OF lt, of 1]
  show "placeholders (length (columns T)) ! (N - 1) = ''$'' @ to_string (int N)"
    by (simp add: placeholders_def)
  from lt show "buildInsertParams T e ! (N - 1) = to_json_field (member (columns T ! (N - 1))) e"
    by (simp add: buildInsertParams_map)
qed

theorem insert_params_align_with_placeholders_witness:
  "(1::nat) \<le> 4 \<and> 4 \<le> length (columns (FXInstrument2_traits (0::real)))
   \<and> placeholders (length (columns (FXInstrument2_traits (0::real)))) ! (4 - 1) = ''$4''
   \<and> name (columns (FXInstrument2_traits (0::real)) ! (4 - 1)) = ''side''
   \<and> buildInsertParams (FXInstrument2_traits 0) sample_instrument ! (4 - 1) = JString ''BUY''"
proof -
  have h: "(1::nat) \<le> 4 \<and> 4 \<le> length (columns (FXInstrument2_traits (0::real)))"
    by (simp add: FXInstrument2_traits_def FXInstrument2_columns_def)
  have col: "columns (FXInstrument2_traits (0::real)) ! (4 - 1) =
      \<lparr> name = ''side'', member = StringField fx2_side (\<lambda>v e. e\<lparr>fx2_side := v\<rparr>) \<rparr>"
    by (simp add: FXInstrument2_traits_def FXInstrument2_columns_def)
  from insert_params_align_with_placeholders
         [of "FXInstrument2_traits (0::real)" sample_instrument,
          THEN conjunct2, THEN conjunct2, THEN conjunct2, rule_format, OF h]
  show ?thesis
    unfolding col using h
    by (simp add: to_json_field_def sample_instrument_def to_string_digits)
qed

section \<open>The repository and the affected-row count\<close>

text \<open>
  C7. Whatever affected-row counts the executor returns for the insert, update and delete
  statements of an entity, zero included, \<^verbatim>\<open>insert\<close>, \<^verbatim>\<open>update\<close> and \<^verbatim>\<open>remove\<close> of the
  repository return normally and with the same result: the count is dropped.
\<close>

theorem affected_count_is_discarded:
  assumes "executePrepared db (buildInsertSQL T) (buildInsertParams T e) = Inr n1"
      and "executePrepared db (buildUpdateSQL T) (buildUpdateParams T e) = Inr n2"
      and "executePrepared db (buildDeleteSQL T) (buildDeleteParams T e) = Inr n3"
  shows "Repository_insert db T e = Inr () \<and> Repository_update db T e = Inr ()
         \<and> Repository_remove db T e = Inr ()"
  using assms by (simp add: Repository_insert_def Repository_update_def Repository_remove_def)

theorem affected_count_is_discarded_witness:
  "executePrepared (counting_db 0) (buildInsertSQL (FXInstrument2_traits 0))
      (buildInsertParams (FXInstrument2_traits 0) sample_instrument) = Inr 0
   \<and> executePrepared (counting_db 0) (buildUpdateSQL (FXInstrument2_traits 0))
      (buildUpdateParams (FXInstrument2_traits 0) sample_instrument) = Inr 0
   \<and> executePrepared (counting_db 0) (buildDeleteSQL (FXInstrument2_traits 0))
      (buildDeleteParams (FXInstrument2_traits 0) sample_instrument) = Inr 0
   \<and> Repository_insert (counting_db 0) (FXInstrument2_traits 0) sample_instrument = Inr ()
   \<and> Repository_update (counting_db 0) (FXInstrument2_traits 0) sample_instrument = Inr ()
   \<and> Repository_remove (counting_db 0) (FXInstrument2_traits 0) sample_instrument = Inr ()"
proof -
  have h: "\<And>sql params. executePrepared (counting_db 0) sql params = Inr 0"
    by (simp add: counting_db_def)
  show ?thesis
    using affected_count_is_discarded [OF h h h, of "FXInstrument2_traits 0" sample_instrument] h
    by simp
qed

section \<open>The loop of the JSON encoders\<close>

lemma obj_find_put: "obj_find (obj_put k v kvs) k' = (if k' = k then Some v else obj_find kvs k')"
  by (induction kvs) auto

lemma assign_loop_obj:
  "for_each_throwing cols (\<lambda>col j. json_assign j (name col) (val col)) (JObject kvs)
   = Inr (JObject (for_each cols (\<lambda>c. obj_put (name c) (val c)) kvs))"
  by (induction cols arbitrary: kvs) simp_all

lemma assign_loop_null:
  "for_each_throwing cols (\<lambda>col j. json_assign j (name col) (val col)) JNull
   = Inr (if cols = [] then JNull else JObject (for_each cols (\<lambda>c. obj_put (name c) (val c)) []))"
  by (cases cols) (simp_all add: assign_loop_obj)

lemma obj_find_loop_other:
  "k \<notin> name ` set cols \<Longrightarrow>
   obj_find (for_each cols (\<lambda>c. obj_put (name c) (val c)) kvs) k = obj_find kvs k"
  by (induction cols arbitrary: kvs) (auto simp: obj_find_put)

lemma obj_find_loop:
  "distinct (map name cols) \<Longrightarrow> c \<in> set cols \<Longrightarrow>
   obj_find (for_each cols (\<lambda>c. obj_put (name c) (val c)) kvs) (name c) = Some (val c)"
proof (induction cols arbitrary: kvs)
  case Nil
  then show ?case by simp
next
  case (Cons a cols)
  show ?case
  proof (cases "c = a")
    case True
    from Cons.prems have "name a \<notin> name ` set cols" by simp
    then show ?thesis
      by (simp add: True obj_find_loop_other obj_find_put)
  next
    case False
    with Cons show ?thesis by simp
  qed
qed

lemma hftools_autoToJson_loop:
  "hftools_autoToJson L T obj =
     for_each_throwing (columns T)
       (\<lambda>col j. json_assign j (name col) (hftools_to_json L (member col) obj)) JNull"
proof -
  have "(\<lambda>col j. case member col of
            TimestampMember g s \<Rightarrow> json_assign j (name col) (JString (timePointToString L (g obj)))
          | Plain m \<Rightarrow> json_assign j (name col) (to_json_field m obj))
      = (\<lambda>col j. json_assign j (name col) (hftools_to_json L (member col) obj))"
    by (intro ext) (simp add: hftools_to_json_def split: hftools_member.splits)
  then show ?thesis
    unfolding hftools_autoToJson_def
    by (rule arg_cong [where f = "\<lambda>f. for_each_throwing (columns T) f JNull"])
qed

lemma hftools_autoToJson_find:
  assumes "distinct (map name (columns T))" and "c \<in> set (columns T)"
  shows "\<exists>kvs. hftools_autoToJson L T obj = Inr (JObject kvs)
           \<and> obj_find kvs (name c) = Some (hftools_to_json L (member c) obj)"
proof -
  from assms(2) have "columns T \<noteq> []" by auto
  then show ?thesis
    using obj_find_loop [OF assms, of "\<lambda>c. hftools_to_json L (member c) obj" "[]"]
    by (simp add: hftools_autoToJson_loop assign_loop_null)
qed

section \<open>Timestamps\<close>

text \<open>
  C8. For every entity and every column whose member is a \<^verbatim>\<open>Timestamp\<close> (column names
  distinct), the JSON object of \<^verbatim>\<open>autoToJson\<close> holds at that column's key the string that
  \<^verbatim>\<open>put_time\<close> renders with the format \<^verbatim>\<open>%Y-%m-%d %H:%M:%S\<close> from the
  \<^verbatim>\<open>gmtime\<close> (UTC) broken-down time of the timestamp cut to whole seconds; the local
  time zone has no part in it.
\<close>

theorem timestamp_rendered_by_gmtime:
  assumes "distinct (map name (columns T))"
      and "c \<in> set (columns T)"
      and "member c = TimestampMember g s"
  shows "\<exists>kvs. hftools_autoToJson L T e = Inr (JObject kvs)
           \<and> obj_find kvs (name c)
               = Some (JString (put_time L (gmtime L (to_time_t (g e))) ''%Y-%m-%d %H:%M:%S''))"
  using hftools_autoToJson_find [OF assms(1,2), of L e] assms(3)
  by (simp add: hftools_to_json_def timePointToString_def)

lemma render_sample:
  "put_time (reference_lib 3600) (gmtime (reference_lib 3600) (to_time_t 1700000000123456789))
     ''%Y-%m-%d %H:%M:%S'' = ''2023-11-14 22:13:20''"
  by code_simp

theorem timestamp_rendered_by_gmtime_witness:
  "distinct (map name (columns Stamped_traits))
   \<and> \<lparr> name = ''at'', member = TimestampMember st_at (\<lambda>v e. e\<lparr>st_at := v\<rparr>) \<rparr>
        \<in> set (columns Stamped_traits)
   \<and> (\<exists>kvs. hftools_autoToJson (reference_lib 3600) Stamped_traits stamped_sample
               = Inr (JObject kvs)
             \<and> obj_find kvs ''at'' = Some (JString ''2023-11-14 22:13:20''))"
proof -
  let ?c = "\<lparr> name = ''at'', member = TimestampMember st_at (\<lambda>v e. e\<lparr>st_at := v\<rparr>) \<rparr>
              :: (Stamped, real) hftools_member Column"
  have d: "distinct (map name (columns Stamped_traits))"
    by (simp add: Stamped_traits_def)
  have m: "?c \<in> set (columns Stamped_traits)"
    by (simp add: Stamped_traits_def)
  have k: "member ?c = TimestampMember st_at (\<lambda>v e. e\<lparr>st_at := v\<rparr>)"
    by simp
  from timestamp_rendered_by_gmtime [OF d m k, of "reference_lib 3600" stamped_sample]
  show ?thesis
    using d m by (simp add: stamped_sample_def render_sample)
qed

section \<open>The calendar of the reference library\<close>

lemma year_of_era_correct:
  assumes "0 \<le> doe" and "doe \<le> 146096" and "year_of_era doe = (yoe, doy)"
  shows "0 \<le> yoe \<and> yoe \<le> 399 \<and> 0 \<le> doy \<and> doy \<le> 365
         \<and> yoe * 365 + yoe div 4 - yoe div 100 + doy = doe"
proof -
  define c where "c = min 3 (doe div 36524)"
  define doc where "doc = doe - c * 36524"
  define q where "q = min 24 (doc div 1461)"
  define doq where "doq = doc - q * 1461"
  define a where "a = min 3 (doq div 365)"
  from assms(3) have yoe: "yoe = 100 * c + 4 * q + a" and doy: "doy = doq - a * 365"
    by (simp_all add: year_of_era_def Let_def c_def doc_def q_def doq_def a_def)
  have c: "0 \<le> c" "c \<le> 3" "c * 36524 \<le> doe" "doe - c * 36524 \<le> 36524"
    using assms(1,2) unfolding c_def by (simp_all add: min_def) arith+
  have doc: "0 \<le> doc" "doc \<le> 36524"
    using c by (simp_all add: doc_def)
  have q: "0 \<le> q" "q \<le> 24" "q * 1461 \<le> doc" "doc - q * 1461 \<le> 1460"
    using doc unfolding q_def by (simp_all add: min_def) arith+
  have doq: "0 \<le> doq" "doq \<le> 1460"
    using q by (simp_all add: doq_def)
  have a: "0 \<le> a" "a \<le> 3" "a * 365 \<le> doq" "doq - a * 365 \<le> 365"
    using doq unfolding a_def by (simp_all add: min_def) arith+
  have d4: "yoe div 4 = 25 * c + q"
    using a(1,2) unfolding yoe by arith
  have d100: "yoe div 100 = c"
    using a(1,2) q(1,2) unfolding yoe by arith
  have "yoe * 365 + yoe div 4 - yoe div 100 + doy = doe"
    unfolding d4 d100 unfolding yoe doy doq_def doc_def by arith
  moreover have "0 \<le> yoe" "yoe \<le> 399"
    using c(1,2) q(1,2) a(1,2) unfolding yoe by arith+
  moreover have "0 \<le> doy" "doy \<le> 365"
    using a(3,4) unfolding doy by arith+
  ultimately show ?thesis by simp
qed

lemma month_day_of_year:
  fixes doy :: int
  assumes "0 \<le> doy" and "doy \<le> 365"
  defines "mp \<equiv> (5 * doy + 2) div 153"
  defines "d \<equiv> doy - (153 * mp + 2) div 5 + 1"
  shows "0 \<le> mp \<and> mp \<le> 11 \<and> 1 \<le> d \<and> d \<le> 31 \<and> (153 * mp + 2) div 5 + d - 1 = doy"
proof -
  have mp: "0 \<le> mp" "mp \<le> 11" "153 * mp \<le> 5 * doy + 2" "5 * doy + 2 < 153 * mp + 153"
    using assms(1,2) unfolding mp_def by arith+
  have "1 \<le> d" "d \<le> 31"
    using mp(3,4) unfolding d_def by arith+
  with mp show ?thesis by (simp add: d_def)
qed

lemma civil_from_days_correct:
  assumes "civil_from_days z = (y, m, d)"
  shows "days_from_civil y m d = z \<and> 1 \<le> m \<and> m \<le> 12 \<and> 1 \<le> d \<and> d \<le> 31
         \<and> 400 * ((z + 719468) div 146097) \<le> y \<and> y \<le> 400 * ((z + 719468) div 146097) + 400"
proof -
  define era where "era = (z + 719468) div 146097"
  define doe where "doe = (z + 719468) mod 146097"
  obtain yoe doy where yd: "year_of_era doe = (yoe, doy)"
    by (cases "year_of_era doe")
  define mp where "mp = (5 * doy + 2) div 153"
  define d' where "d' = doy - (153 * mp + 2) div 5 + 1"
  define m' where "m' = (if mp < 10 then mp + 3 else mp - 9)"
  have doe: "0 \<le> doe" "doe \<le> 146096"
    by (simp_all add: doe_def)
  from year_of_era_correct [OF doe yd]
  have yoe: "0 \<le> yoe" "yoe \<le> 399" and doy: "0 \<le> doy" "doy \<le> 365"
    and sum: "yoe * 365 + yoe div 4 - yoe div 100 + doy = doe"
    by simp_all
  from month_day_of_year [OF doy]
  have mp: "0 \<le> mp" "mp \<le> 11" and d': "1 \<le> d'" "d' \<le> 31"
    and doyback: "(153 * mp + 2) div 5 + d' - 1 = doy"
    by (simp_all add: mp_def d'_def)
  have "civil_from_days z = (if m' \<le> 2 then yoe + era * 400 + 1 else yoe + era * 400, m', d')"
    by (simp add: civil_from_days_def Let_def yd [unfolded doe_def] m'_def d'_def mp_def era_def)
  with assms have y: "y = (if m' \<le> 2 then yoe + era * 400 + 1 else yoe + era * 400)"
    and m: "m = m'" and d: "d = d'"
    by (auto split: if_splits)
  have m'1: "1 \<le> m'" "m' \<le> 12"
    using mp by (simp_all add: m'_def)
  have mpback: "(if 2 < m' then m' - 3 else m' + 9) = mp"
    using mp by (simp add: m'_def)
  have yback: "(if m' \<le> 2 then y - 1 else y) = yoe + era * 400"
    by (simp add: y)
  have era': "(yoe + era * 400) div 400 = era" "(yoe + era * 400) mod 400 = yoe"
    using yoe by simp_all
  have z: "era * 146097 + doe = z + 719468"
    by (simp add: era_def doe_def)
  have "days_from_civil y m' d' = z"
    unfolding days_from_civil_def Let_def yback mpback era' doyback sum using z by simp
  moreover have "400 * era \<le> y" "y \<le> 400 * era + 400"
    using yoe by (simp_all add: y)
  ultimately show ?thesis
    using m'1 d' by (simp add: m d era_def)
qed

lemma seconds_of_day:
  fixes secs :: int
  assumes "0 \<le> secs" and "secs < 86400"
  shows "secs div 3600 * 3600 + secs div 60 mod 60 * 60 + secs mod 60 = secs
         \<and> 0 \<le> secs div 3600 \<and> secs div 3600 \<le> 23
         \<and> 0 \<le> secs div 60 mod 60 \<and> secs div 60 mod 60 \<le> 59
         \<and> 0 \<le> secs mod 60 \<and> secs mod 60 \<le> 59"
proof -
  define a where "a = secs div 60"
  have h: "secs div 3600 = a div 60"
    using zdiv_zmult2_eq [of 60 secs 60] by (simp add: a_def)
  have s1: "secs = 60 * a + secs mod 60"
    by (simp add: a_def)
  have s2: "a = 60 * (a div 60) + a mod 60"
    by simp
  have sum: "a div 60 * 3600 + a mod 60 * 60 + secs mod 60 = secs"
    using s1 s2 by linarith
  have a: "0 \<le> a" "a < 1440"
    using assms unfolding a_def by arith+
  have hb: "0 \<le> a div 60" "a div 60 \<le> 23"
    using a by arith+
  have mb: "0 \<le> a mod 60" "a mod 60 \<le> 59" "0 \<le> secs mod 60" "secs mod 60 \<le> 59"
    by simp_all
  show ?thesis
    unfolding h a_def [symmetric] using sum hb mb by simp
qed

lemma reference_gmtime_fields:
  "\<exists>y m d. civil_from_days (s div 86400) = (y, m, d)
     \<and> tm_year (reference_gmtime s) = y - 1900 \<and> tm_mon (reference_gmtime s) = m - 1
     \<and> tm_mday (reference_gmtime s) = d
     \<and> tm_hour (reference_gmtime s) = s mod 86400 div 3600
     \<and> tm_min (reference_gmtime s) = s mod 86400 div 60 mod 60
     \<and> tm_sec (reference_gmtime s) = s mod 86400 mod 60"
  by (cases "civil_from_days (s div 86400)") (simp add: reference_gmtime_def Let_def)

lemma timegm_gmtime: "reference_timegm (reference_gmtime s) = s"
proof -
  from reference_gmtime_fields [of s] obtain y m d where
    c: "civil_from_days (s div 86400) = (y, m, d)"
    and f: "tm_year (reference_gmtime s) = y - 1900" "tm_mon (reference_gmtime s) = m - 1"
      "tm_mday (reference_gmtime s) = d"
      "tm_hour (reference_gmtime s) = s mod 86400 div 3600"
      "tm_min (reference_gmtime s) = s mod 86400 div 60 mod 60"
      "tm_sec (reference_gmtime s) = s mod 86400 mod 60"
    by blast
  from civil_from_days_correct [OF c] have days: "days_from_civil y m d = s div 86400"
    by simp
  have "0 \<le> s mod 86400" "s mod 86400 < 86400" by simp_all
  from seconds_of_day [OF this]
  have "s mod 86400 div 3600 * 3600 + s mod 86400 div 60 mod 60 * 60 + s mod 86400 mod 60
        = s mod 86400"
    by simp
  moreover have "s div 86400 * 86400 + s mod 86400 = s" by simp
  moreover have "\<And>dd hh mm ss r :: int.
      hh * 3600 + mm * 60 + ss = r \<Longrightarrow> dd * 86400 + r = s
      \<Longrightarrow> dd * 86400 + hh * 3600 + mm * 60 + ss = s"
    by simp
  ultimately have "s div 86400 * 86400 + s mod 86400 div 3600 * 3600
      + s mod 86400 div 60 mod 60 * 60 + s mod 86400 mod 60 = s"
    by blast
  moreover have "reference_timegm (reference_gmtime s)
      = days_from_civil y m d * 86400 + s mod 86400 div 3600 * 3600
        + s mod 86400 div 60 mod 60 * 60 + s mod 86400 mod 60"
    by (simp add: reference_timegm_def f)
  ultimately show ?thesis
    by (simp only: days)
qed

section \<open>Rendering and reading back a broken-down time\<close>

lemma digit_char_props:
  assumes "d < 10"
  shows "is_digit (digit_char d)" and "int (of_char (digit_char d)) = int d + 48"
proof -
  from assms have "d \<in> {0, 1, 2, 3, 4, 5, 6, 7, 8, 9}" by auto
  then show "is_digit (digit_char d)" and "int (of_char (digit_char d)) = int d + 48"
    by (auto simp: is_digit_def digit_char_def)
qed

lemma nat_to_string_1: "n < 10 \<Longrightarrow> nat_to_string n = [digit_char n]"
  by (subst nat_to_string.simps) simp

lemma nat_to_string_2:
  assumes "10 \<le> n" and "n < 100"
  shows "nat_to_string n = [digit_char (n div 10), digit_char (n mod 10)]"
proof -
  from assms have "n div 10 < 10" by arith
  with assms show ?thesis
    by (subst nat_to_string.simps) (simp add: nat_to_string_1)
qed

lemma nat_to_string_3:
  assumes "100 \<le> n" and "n < 1000"
  shows "nat_to_string n
         = [digit_char (n div 10 div 10), digit_char (n div 10 mod 10), digit_char (n mod 10)]"
proof -
  from assms have "10 \<le> n div 10" "n div 10 < 100" by arith+
  with assms show ?thesis
    by (subst nat_to_string.simps) (simp add: nat_to_string_2)
qed

lemma nat_to_string_4:
  assumes "1000 \<le> n" and "n < 10000"
  shows "nat_to_string n
         = [digit_char (n div 10 div 10 div 10), digit_char (n div 10 div 10 mod 10),
            digit_char (n div 10 mod 10), digit_char (n mod 10)]"
proof -
  from assms have "100 \<le> n div 10" "n div 10 < 1000" by arith+
  with assms show ?thesis
    by (subst nat_to_string.simps) (simp add: nat_to_string_3)
qed

lemma two_digits_chars:
  assumes "0 \<le> i" and "i < 100"
  shows "two_digits i = [digit_char (nat i div 10), digit_char (nat i mod 10)]"
proof (cases "i < 10")
  case True
  with assms have "nat i < 10" "nat i div 10 = 0" "nat i mod 10 = nat i" by simp_all
  with assms True show ?thesis
    by (simp add: two_digits_def to_string_def nat_to_string_1 digit_char_def)
next
  case False
  with assms have "10 \<le> nat i" "nat i < 100" by simp_all
  with assms False show ?thesis
    by (simp add: two_digits_def to_string_def nat_to_string_2)
qed

lemma four_digits_chars:
  assumes "1000 \<le> i" and "i < 10000"
  shows "to_string i
         = [digit_char (nat i div 10 div 10 div 10), digit_char (nat i div 10 div 10 mod 10),
            digit_char (nat i div 10 mod 10), digit_char (nat i mod 10)]"
proof -
  from assms have "1000 \<le> nat i" "nat i < 10000" by simp_all
  with assms show ?thesis
    by (simp add: to_string_def nat_to_string_4)
qed

lemma digits_value_2:
  assumes "n < 100"
  shows "list_all is_digit [digit_char (n div 10), digit_char (n mod 10)]"
    and "digits_value [digit_char (n div 10), digit_char (n mod 10)] = int n"
proof -
  from assms have a: "n div 10 < 10" by arith
  have b: "n mod 10 < 10" by simp
  show "list_all is_digit [digit_char (n div 10), digit_char (n mod 10)]"
    by (simp add: digit_char_props(1) [OF a] digit_char_props(1) [OF b])
  have "int (n div 10) * 10 + int (n mod 10) = int n"
    by (metis mult.commute of_nat_add of_nat_mult of_nat_numeral div_mult_mod_eq mult.commute)
  then show "digits_value [digit_char (n div 10), digit_char (n mod 10)] = int n"
    by (simp add: digits_value_def digit_char_props(2) [OF a] digit_char_props(2) [OF b])
qed

lemma digits_value_4:
  assumes "n < 10000"
  shows "list_all is_digit
           [digit_char (n div 10 div 10 div 10), digit_char (n div 10 div 10 mod 10),
            digit_char (n div 10 mod 10), digit_char (n mod 10)]"
    and "digits_value
           [digit_char (n div 10 div 10 div 10), digit_char (n div 10 div 10 mod 10),
            digit_char (n div 10 mod 10), digit_char (n mod 10)] = int n"
proof -
  from assms have a: "n div 10 div 10 div 10 < 10" by arith
  have b: "n div 10 div 10 mod 10 < 10" "n div 10 mod 10 < 10" "n mod 10 < 10" by simp_all
  show "list_all is_digit
           [digit_char (n div 10 div 10 div 10), digit_char (n div 10 div 10 mod 10),
            digit_char (n div 10 mod 10), digit_char (n mod 10)]"
    by (simp add: digit_char_props(1) [OF a] b [THEN digit_char_props(1)])
  define p where "p = n div 10"
  define r where "r = p div 10"
  have e1: "n = p * 10 + n mod 10" by (simp add: p_def)
  have e2: "p = r * 10 + p mod 10" by (simp add: r_def)
  have e3: "r = r div 10 * 10 + r mod 10" by simp
  have "((int (r div 10) * 10 + int (r mod 10)) * 10 + int (p mod 10)) * 10 + int (n mod 10)
        = int n"
    using e1 e2 e3 by (metis of_nat_add of_nat_mult of_nat_numeral)
  then show "digits_value
           [digit_char (n div 10 div 10 div 10), digit_char (n div 10 div 10 mod 10),
            digit_char (n div 10 mod 10), digit_char (n mod 10)] = int n"
    by (simp add: digits_value_def digit_char_props(2) [OF a] b [THEN digit_char_props(2)]
        p_def r_def algebra_simps)
qed

lemma reference_get_time_digits:
  assumes "list_all is_digit [y1, y2, y3, y4]" and "list_all is_digit [m1, m2]"
      and "list_all is_digit [d1, d2]" and "list_all is_digit [h1, h2]"
      and "list_all is_digit [i1, i2]" and "list_all is_digit [s1, s2]"
  shows "reference_get_time t
           ([y1, y2, y3, y4] @ ''-'' @ [m1, m2] @ ''-'' @ [d1, d2] @ '' '' @ [h1, h2] @ '':'' @
            [i1, i2] @ '':'' @ [s1, s2])
           ''%Y-%m-%d %H:%M:%S''
         = t\<lparr> tm_sec := digits_value [s1, s2], tm_min := digits_value [i1, i2],
              tm_hour := digits_value [h1, h2], tm_mday := digits_value [d1, d2],
              tm_mon := digits_value [m1, m2] - 1,
              tm_year := digits_value [y1, y2, y3, y4] - 1900 \<rparr>"
  using assms by (simp add: reference_get_time_def number_at_def)

lemma two_digits_value:
  assumes "0 \<le> i" and "i < 100"
  shows "list_all is_digit [digit_char (nat i div 10), digit_char (nat i mod 10)]"
    and "digits_value [digit_char (nat i div 10), digit_char (nat i mod 10)] = i"
proof -
  from assms have n: "nat i < 100" by simp
  from assms have cast: "int (nat i) = i" by simp
  show "list_all is_digit [digit_char (nat i div 10), digit_char (nat i mod 10)]"
    by (rule digits_value_2(1) [OF n])
  show "digits_value [digit_char (nat i div 10), digit_char (nat i mod 10)] = i"
    using digits_value_2(2) [OF n] cast by (rule trans)
qed

lemma four_digits_value:
  assumes "1000 \<le> i" and "i < 10000"
  shows "list_all is_digit
           [digit_char (nat i div 10 div 10 div 10), digit_char (nat i div 10 div 10 mod 10),
            digit_char (nat i div 10 mod 10), digit_char (nat i mod 10)]"
    and "digits_value
           [digit_char (nat i div 10 div 10 div 10), digit_char (nat i div 10 div 10 mod 10),
            digit_char (nat i div 10 mod 10), digit_char (nat i mod 10)] = i"
proof -
  from assms have n: "nat i < 10000" by simp
  from assms have cast: "int (nat i) = i" by simp
  show "list_all is_digit
           [digit_char (nat i div 10 div 10 div 10), digit_char (nat i div 10 div 10 mod 10),
            digit_char (nat i div 10 mod 10), digit_char (nat i mod 10)]"
    by (rule digits_value_4(1) [OF n])
  show "digits_value
           [digit_char (nat i div 10 div 10 div 10), digit_char (nat i div 10 div 10 mod 10),
            digit_char (nat i div 10 mod 10), digit_char (nat i mod 10)] = i"
    using digits_value_4(2) [OF n] cast by (rule trans)
qed

lemma put_time_then_get_time:
  assumes "calendar_fields u"
  shows "reference_get_time t (reference_put_time u ''%Y-%m-%d %H:%M:%S'') ''%Y-%m-%d %H:%M:%S''
         = t\<lparr> tm_sec := tm_sec u, tm_min := tm_min u, tm_hour := tm_hour u,
              tm_mday := tm_mday u, tm_mon := tm_mon u, tm_year := tm_year u \<rparr>"
    and "reference_put_time u ''%Y-%m-%d %H:%M:%S'' \<noteq> []"
proof -
  from assms have y: "1000 \<le> tm_year u + 1900" "tm_year u + 1900 < 10000"
    and m: "0 \<le> tm_mon u + 1" "tm_mon u + 1 < 100"
    and d: "0 \<le> tm_mday u" "tm_mday u < 100"
    and h: "0 \<le> tm_hour u" "tm_hour u < 100"
    and i: "0 \<le> tm_min u" "tm_min u < 100"
    and s: "0 \<le> tm_sec u" "tm_sec u < 100"
    by (simp_all add: calendar_fields_def)
  have rendered: "reference_put_time u ''%Y-%m-%d %H:%M:%S''
      = to_string (tm_year u + 1900) @ ''-'' @ two_digits (tm_mon u + 1) @ ''-'' @
        two_digits (tm_mday u) @ '' '' @ two_digits (tm_hour u) @ '':'' @
        two_digits (tm_min u) @ '':'' @ two_digits (tm_sec u)"
    by (simp add: reference_put_time_def)
  show "reference_put_time u ''%Y-%m-%d %H:%M:%S'' \<noteq> []"
    unfolding rendered four_digits_chars [OF y] by simp
  have dy: "list_all is_digit
           [digit_char (nat (tm_year u + 1900) div 10 div 10 div 10),
            digit_char (nat (tm_year u + 1900) div 10 div 10 mod 10),
            digit_char (nat (tm_year u + 1900) div 10 mod 10),
            digit_char (nat (tm_year u + 1900) mod 10)]"
    and vy: "digits_value
           [digit_char (nat (tm_year u + 1900) div 10 div 10 div 10),
            digit_char (nat (tm_year u + 1900) div 10 div 10 mod 10),
            digit_char (nat (tm_year u + 1900) div 10 mod 10),
            digit_char (nat (tm_year u + 1900) mod 10)] = tm_year u + 1900"
    using four_digits_value [OF y] by simp_all
  note dm = two_digits_value(1) [OF m] and vm = two_digits_value(2) [OF m]
  note dd = two_digits_value(1) [OF d] and vd = two_digits_value(2) [OF d]
  note dh = two_digits_value(1) [OF h] and vh = two_digits_value(2) [OF h]
  note di = two_digits_value(1) [OF i] and vi = two_digits_value(2) [OF i]
  note ds = two_digits_value(1) [OF s] and vs = two_digits_value(2) [OF s]
  note g = reference_get_time_digits [OF dy dm dd dh di ds, of t]
  have "reference_get_time t (reference_put_time u ''%Y-%m-%d %H:%M:%S'') ''%Y-%m-%d %H:%M:%S''
         = t\<lparr> tm_sec := tm_sec u, tm_min := tm_min u, tm_hour := tm_hour u,
              tm_mday := tm_mday u, tm_mon := tm_mon u + 1 - 1,
              tm_year := tm_year u + 1900 - 1900 \<rparr>"
    unfolding rendered four_digits_chars [OF y] two_digits_chars [OF m] two_digits_chars [OF d]
      two_digits_chars [OF h] two_digits_chars [OF i] two_digits_chars [OF s]
    unfolding g vy vm vd vh vi vs ..
  then show "reference_get_time t (reference_put_time u ''%Y-%m-%d %H:%M:%S'') ''%Y-%m-%d %H:%M:%S''
         = t\<lparr> tm_sec := tm_sec u, tm_min := tm_min u, tm_hour := tm_hour u,
              tm_mday := tm_mday u, tm_mon := tm_mon u, tm_year := tm_year u \<rparr>"
    by simp
qed

lemma timegm_fields:
  assumes "tm_sec a = tm_sec b" "tm_min a = tm_min b" "tm_hour a = tm_hour b"
    "tm_mday a = tm_mday b" "tm_mon a = tm_mon b" "tm_year a = tm_year b"
  shows "reference_timegm a = reference_timegm b"
  using assms by (simp add: reference_timegm_def)

lemma gmtime_calendar_fields:
  assumes "- 9223372037 \<le> s" and "s \<le> 9223372037"
  shows "calendar_fields (reference_gmtime s)"
proof -
  from reference_gmtime_fields [of s] obtain y m d where
    c: "civil_from_days (s div 86400) = (y, m, d)"
    and f: "tm_year (reference_gmtime s) = y - 1900" "tm_mon (reference_gmtime s) = m - 1"
      "tm_mday (reference_gmtime s) = d"
      "tm_hour (reference_gmtime s) = s mod 86400 div 3600"
      "tm_min (reference_gmtime s) = s mod 86400 div 60 mod 60"
      "tm_sec (reference_gmtime s) = s mod 86400 mod 60"
    by blast
  from civil_from_days_correct [OF c]
  have md: "1 \<le> m" "m \<le> 12" "1 \<le> d" "d \<le> 31"
    and yb: "400 * ((s div 86400 + 719468) div 146097) \<le> y"
      "y \<le> 400 * ((s div 86400 + 719468) div 146097) + 400"
    by simp_all
  from assms have days: "- 106752 \<le> s div 86400" "s div 86400 \<le> 106751" by arith+
  then have era: "4 \<le> (s div 86400 + 719468) div 146097" "(s div 86400 + 719468) div 146097 \<le> 5"
    by arith+
  with yb have y: "1000 \<le> y" "y < 10000" by arith+
  have "0 \<le> s mod 86400" "s mod 86400 < 86400" by simp_all
  from seconds_of_day [OF this]
  have hms: "0 \<le> s mod 86400 div 3600" "s mod 86400 div 3600 \<le> 23"
    "0 \<le> s mod 86400 div 60 mod 60" "s mod 86400 div 60 mod 60 \<le> 59"
    "0 \<le> s mod 86400 mod 60" "s mod 86400 mod 60 \<le> 59"
    by simp_all
  show ?thesis
    unfolding calendar_fields_def f using md y hms by simp
qed

section \<open>Rendering a timestamp and reading it back\<close>

lemma to_time_t_range:
  assumes "- (2 ^ 63) \<le> t" and "t < 2 ^ 63"
  shows "- 9223372037 \<le> to_time_t t" and "to_time_t t \<le> 9223372037"
proof -
  define q where "q = \<bar>t\<bar> div 1000000000"
  have q0: "0 \<le> q" by (simp add: q_def)
  from assms have "\<bar>t\<bar> \<le> 9223372036854775808" by simp
  then have q1: "q \<le> 9223372036" unfolding q_def by arith
  have t: "to_time_t t = sgn t * q"
    by (simp add: to_time_t_def ticks_per_second_def q_def)
  have "sgn t = - 1 \<or> sgn t = 0 \<or> sgn t = 1"
    by (simp add: sgn_if)
  with q0 q1 show "- 9223372037 \<le> to_time_t t" and "to_time_t t \<le> 9223372037"
    unfolding t by auto
qed

lemma from_time_t_in_range:
  assumes "- (2 ^ 63) \<le> x * ticks_per_second" and "x * ticks_per_second < 2 ^ 63"
  shows "from_time_t x = x * ticks_per_second"
proof -
  from assms have "0 \<le> x * ticks_per_second + 2 ^ 63" "x * ticks_per_second + 2 ^ 63 < 2 ^ 64"
    by simp_all
  then have "(x * ticks_per_second + 2 ^ 63) mod 2 ^ 64 = x * ticks_per_second + 2 ^ 63"
    by (rule mod_pos_pos_trivial)
  then show ?thesis by (simp add: from_time_t_def)
qed

lemma zone_lib_fields:
  "gmtime (zone_lib Z) = reference_gmtime" "mktime (zone_lib Z) = reference_mktime Z"
  "put_time (zone_lib Z) = reference_put_time" "get_time (zone_lib Z) = reference_get_time"
  by (simp_all add: zone_lib_def)

lemma mktime_of_rendered_gmtime:
  assumes "- 9223372037 \<le> s" and "s \<le> 9223372037"
  shows "reference_mktime Z
           (reference_get_time tm_zero
              (reference_put_time (reference_gmtime s) ''%Y-%m-%d %H:%M:%S'')
              ''%Y-%m-%d %H:%M:%S'')
         = s - std_offset Z"
proof -
  let ?u = "reference_gmtime s"
  let ?p = "tm_zero\<lparr> tm_sec := tm_sec ?u, tm_min := tm_min ?u, tm_hour := tm_hour ?u,
              tm_mday := tm_mday ?u, tm_mon := tm_mon ?u, tm_year := tm_year ?u \<rparr>"
  from gmtime_calendar_fields [OF assms] have cal: "calendar_fields ?u" .
  have parsed: "reference_get_time tm_zero (reference_put_time ?u ''%Y-%m-%d %H:%M:%S'')
                  ''%Y-%m-%d %H:%M:%S'' = ?p"
    by (rule put_time_then_get_time(1) [OF cal])
  have dst: "tm_isdst ?p = 0"
    by (simp add: tm_zero_def)
  have "reference_timegm ?p = reference_timegm ?u"
    by (rule timegm_fields) simp_all
  then have "reference_timegm ?p = s"
    by (simp add: timegm_gmtime)
  with dst have "reference_mktime Z ?p = s - std_offset Z"
    by (simp add: reference_mktime_def)
  with parsed show ?thesis by simp
qed

text \<open>
  C10, as the code has it. \<^verbatim>\<open>timePointToString\<close> renders the \<^verbatim>\<open>gmtime\<close> (UTC) calendar
  members of a timestamp, and \<^verbatim>\<open>stringToTimePoint\<close> reads them into a zeroed \<^verbatim>\<open>tm\<close>, whose
  \<^verbatim>\<open>tm_isdst\<close> stays zero, and hands it to \<^verbatim>\<open>mktime\<close>, which takes it for local standard
  time. In the reference library of any zone, for every timestamp of the 64-bit clock,
  the composition is \<^verbatim>\<open>from_time_t\<close> of the seconds of the timestamp less the zone's
  standard-time offset, whether or not daylight saving time is in effect; where that does
  not overflow, it is the timestamp cut to whole seconds exactly when the standard-time
  offset is zero. The empty string gives the epoch, in every library.
\<close>

theorem timestamp_codec_shifts_by_standard_offset:
  assumes "- (2 ^ 63) \<le> t" and "t < 2 ^ 63"
  shows "stringToTimePoint (zone_lib Z) (timePointToString (zone_lib Z) t)
           = from_time_t (to_time_t t - std_offset Z)
         \<and> (- (2 ^ 63) \<le> (to_time_t t - std_offset Z) * ticks_per_second
              \<and> (to_time_t t - std_offset Z) * ticks_per_second < 2 ^ 63
            \<longrightarrow> stringToTimePoint (zone_lib Z) (timePointToString (zone_lib Z) t)
                  = (to_time_t t - std_offset Z) * ticks_per_second
                \<and> (stringToTimePoint (zone_lib Z) (timePointToString (zone_lib Z) t)
                     = to_time_t t * ticks_per_second
                   \<longleftrightarrow> std_offset Z = 0))
         \<and> stringToTimePoint L [] = 0"
proof -
  note r = to_time_t_range [OF assms]
  have nonempty: "reference_put_time (reference_gmtime (to_time_t t)) ''%Y-%m-%d %H:%M:%S'' \<noteq> []"
    by (rule put_time_then_get_time(2) [OF gmtime_calendar_fields [OF r]])
  have comp: "stringToTimePoint (zone_lib Z) (timePointToString (zone_lib Z) t)
           = from_time_t (to_time_t t - std_offset Z)"
    using nonempty
    by (simp add: stringToTimePoint_def timePointToString_def zone_lib_fields
        mktime_of_rendered_gmtime [OF r])
  have exact: "stringToTimePoint (zone_lib Z) (timePointToString (zone_lib Z) t)
                  = (to_time_t t - std_offset Z) * ticks_per_second
                \<and> (stringToTimePoint (zone_lib Z) (timePointToString (zone_lib Z) t)
                     = to_time_t t * ticks_per_second
                   \<longleftrightarrow> std_offset Z = 0)"
    if "- (2 ^ 63) \<le> (to_time_t t - std_offset Z) * ticks_per_second
        \<and> (to_time_t t - std_offset Z) * ticks_per_second < 2 ^ 63"
  proof -
    from that have "from_time_t (to_time_t t - std_offset Z)
                    = (to_time_t t - std_offset Z) * ticks_per_second"
      by (simp add: from_time_t_in_range)
    with comp show ?thesis
      by (simp add: ticks_per_second_def)
  qed
  have empty: "stringToTimePoint L [] = 0"
    by (simp add: stringToTimePoint_def)
  from comp exact empty show ?thesis by blast
qed

theorem timestamp_codec_shifts_by_standard_offset_witness:
  "- (2 ^ 63) \<le> summer_instant \<and> summer_instant < 2 ^ 63
   \<and> std_offset central_europe = 3600
   \<and> to_time_t summer_instant = 1688212800
   \<and> stringToTimePoint (zone_lib central_europe)
         (timePointToString (zone_lib central_europe) summer_instant)
       = 1688209200000000000"
proof -
  have a: "- (2 ^ 63) \<le> summer_instant" and b: "summer_instant < 2 ^ 63"
    by (simp_all add: summer_instant_def)
  have c: "std_offset central_europe = 3600"
    by (simp add: central_europe_def)
  have d: "to_time_t summer_instant = 1688212800"
    by (simp add: to_time_t_def summer_instant_def ticks_per_second_def)
  have e: "from_time_t (1688212800 - 3600) = 1688209200000000000"
    by (simp add: from_time_t_def ticks_per_second_def)
  from timestamp_codec_shifts_by_standard_offset [OF a b, of central_europe, THEN conjunct1]
  have "stringToTimePoint (zone_lib central_europe)
         (timePointToString (zone_lib central_europe) summer_instant)
       = 1688209200000000000"
    by (simp only: c d e)
  with a b c d show ?thesis by simp
qed

text \<open>
  The shift is not the offset of local time from UTC: on 1 July 2023 central Europe is
  7200 seconds ahead of UTC, and the composition moves the timestamp by 3600 seconds.
\<close>

theorem shift_is_not_the_local_offset_counterexample:
  "stringToTimePoint (zone_lib central_europe)
         (timePointToString (zone_lib central_europe) summer_instant)
       = 1688209200000000000
   \<and> local_offset central_europe (to_time_t summer_instant) = 7200
   \<and> from_time_t (to_time_t summer_instant - 7200) = 1688205600000000000"
  by code_simp

section \<open>Decoding what was encoded\<close>

lemma autoFromJson_loop:
  "autoFromJson L T j = for_each_throwing (columns T) (decode_step L j) (Entity T)"
  unfolding autoFromJson_def decode_step_def Let_def by (rule refl)

lemma hftools_autoFromJson_loop:
  "hftools_autoFromJson L T j = for_each_throwing (columns T) (hftools_decode_step L j) (Entity T)"
  unfolding hftools_autoFromJson_def hftools_decode_step_def Let_def by (rule refl)

lemma int_roundtrip: "ucast (scast (x :: 32 word) :: 64 word) = x"
  by (rule bit_word_eqI) (auto simp: bit_simps)

lemma get_to_encoded:
  "get_to L (to_json_field m e) m obj = Inr (field_store m (field_value m e) obj)"
  by (cases m) (simp_all add: get_to_def to_json_field_def int_roundtrip)

lemma to_json_field_not_null: "\<not> is_null (to_json_field m e)"
  by (cases m) (simp_all add: to_json_field_def)

lemma json_contains_at: "json_at j k = Inr v \<Longrightarrow> json_contains j k"
  by (cases j) (auto split: option.splits)

lemma hftools_decode_step_encoded:
  assumes "json_at j (name c) = Inr (hftools_to_json L (member c) e)"
  shows "hftools_decode_step L j c obj
         = Inr (hftools_field_store (member c) (decoded_value L (member c) e) obj)"
proof (cases "member c")
  case (Plain m)
  with assms json_contains_at [OF assms] show ?thesis
    by (simp add: hftools_decode_step_def hftools_to_json_def decoded_value_def
        get_to_encoded to_json_field_not_null)
next
  case (TimestampMember g s)
  with assms json_contains_at [OF assms] show ?thesis
    by (simp add: hftools_decode_step_def hftools_to_json_def decoded_value_def)
qed

lemma hftools_decode_loop_encoded:
  assumes "\<forall>c\<in>set cs. json_at j (name c) = Inr (hftools_to_json L (member c) e)"
  shows "for_each_throwing cs (hftools_decode_step L j) obj
         = Inr (for_each cs (\<lambda>c. hftools_field_store (member c) (decoded_value L (member c) e)) obj)"
  using assms
  by (induction cs arbitrary: obj) (simp_all add: hftools_decode_step_encoded)

lemma stores_leave_independent:
  assumes "\<forall>c\<in>set cs. member_independent (member c) m'"
  shows "hftools_field_value m' (for_each cs (\<lambda>c. hftools_field_store (member c) (val c)) obj)
         = hftools_field_value m' obj"
  using assms
  by (induction cs arbitrary: obj) (simp_all add: member_independent_def)

lemma store_then_read:
  assumes "member_lawful m"
  shows "hftools_field_value m (hftools_field_store m (decoded_value L m e0) obj)
         = decoded_value L m e0"
proof (cases m)
  case (Plain f)
  with assms show ?thesis
    by (cases f) (simp_all add: decoded_value_def)
next
  case (TimestampMember g s)
  with assms show ?thesis
    by (simp add: decoded_value_def)
qed

lemma stores_read_back:
  assumes "lawful_columns cols" and "set cs \<subseteq> set cols" and "distinct (map name cs)"
      and "c \<in> set cs"
  shows "hftools_field_value (member c)
           (for_each cs (\<lambda>c. hftools_field_store (member c) (decoded_value L (member c) e0)) obj)
         = decoded_value L (member c) e0"
  using assms(2-4)
proof (induction cs arbitrary: obj)
  case Nil
  then show ?case by simp
next
  case (Cons a cs)
  show ?case
  proof (cases "c = a")
    case True
    have "\<forall>c'\<in>set cs. member_independent (member c') (member a)"
    proof
      fix c' assume c': "c' \<in> set cs"
      from Cons.prems(2) have "name a \<notin> name ` set cs" by simp
      with c' have "name c' \<noteq> name a" by (metis imageI)
      moreover from c' Cons.prems have "c' \<in> set cols" "a \<in> set cols" by auto
      ultimately show "member_independent (member c') (member a)"
        using assms(1) by (simp add: lawful_columns_def)
    qed
    moreover from Cons.prems assms(1) have "member_lawful (member a)"
      by (simp add: lawful_columns_def)
    ultimately show ?thesis
      by (simp add: True stores_leave_independent store_then_read)
  next
    case False
    with Cons.prems have "c \<in> set cs" "set cs \<subseteq> set cols" "distinct (map name cs)"
      by auto
    with Cons.IH show ?thesis by simp
  qed
qed

lemma hftools_encode_at:
  assumes "distinct (map name (columns T))"
  shows "\<exists>j. hftools_autoToJson L T e = Inr j
           \<and> (\<forall>c\<in>set (columns T). json_at j (name c) = Inr (hftools_to_json L (member c) e))"
proof (cases "columns T = []")
  case True
  then show ?thesis
    by (simp add: hftools_autoToJson_loop)
next
  case False
  let ?kvs = "for_each (columns T) (\<lambda>c. obj_put (name c) (hftools_to_json L (member c) e)) []"
  have "hftools_autoToJson L T e = Inr (JObject ?kvs)"
    using False by (simp add: hftools_autoToJson_loop assign_loop_null)
  moreover have "\<forall>c\<in>set (columns T). json_at (JObject ?kvs) (name c)
                    = Inr (hftools_to_json L (member c) e)"
  proof
    fix c assume "c \<in> set (columns T)"
    from obj_find_loop [OF assms this, of "\<lambda>c. hftools_to_json L (member c) e" "[]"]
    show "json_at (JObject ?kvs) (name c) = Inr (hftools_to_json L (member c) e)"
      by simp
  qed
  ultimately show ?thesis by blast
qed

lemma hftools_roundtrip:
  assumes "lawful_columns (columns T)"
  shows "\<exists>j e'. hftools_autoToJson L T e = Inr j \<and> hftools_autoFromJson L T j = Inr e'
           \<and> (\<forall>c\<in>set (columns T). hftools_field_value (member c) e' = decoded_value L (member c) e)"
proof -
  from assms have d: "distinct (map name (columns T))"
    by (simp add: lawful_columns_def)
  from hftools_encode_at [OF d, of L e] obtain j where
    j: "hftools_autoToJson L T e = Inr j"
    and at: "\<forall>c\<in>set (columns T). json_at j (name c) = Inr (hftools_to_json L (member c) e)"
    by blast
  let ?e' = "for_each (columns T)
               (\<lambda>c. hftools_field_store (member c) (decoded_value L (member c) e)) (Entity T)"
  have "hftools_autoFromJson L T j = Inr ?e'"
    by (simp add: hftools_autoFromJson_loop hftools_decode_loop_encoded [OF at])
  moreover have "\<forall>c\<in>set (columns T). hftools_field_value (member c) ?e' = decoded_value L (member c) e"
    using stores_read_back [OF assms subset_refl d] by blast
  ultimately show ?thesis using j by blast
qed

lemma for_each_throwing_map:
  "for_each_throwing (map h xs) f s = for_each_throwing xs (\<lambda>x. f (h x)) s"
  by (induction xs arbitrary: s) (simp_all split: sum.splits)

lemma autoToJson_plain: "hftools_autoToJson L (plain_traits T) e = autoToJson T e"
  by (simp add: hftools_autoToJson_loop plain_traits_def for_each_throwing_map plain_column_def
      hftools_to_json_def autoToJson_def)

lemma decode_step_plain:
  assumes "json_at j (name c) = Inr v" and "\<not> is_null v"
  shows "hftools_decode_step L j (plain_column c) obj = decode_step L j c obj"
  using assms json_contains_at [OF assms(1)]
  by (simp add: hftools_decode_step_def decode_step_def plain_column_def)

lemma decode_loop_plain:
  assumes "\<forall>c\<in>set cs. \<exists>v. json_at j (name c) = Inr v \<and> \<not> is_null v"
  shows "for_each_throwing (map plain_column cs) (hftools_decode_step L j) obj
         = for_each_throwing cs (decode_step L j) obj"
  using assms
proof (induction cs arbitrary: obj)
  case Nil
  then show ?case by simp
next
  case (Cons a cs)
  from Cons.prems obtain v where v: "json_at j (name a) = Inr v" "\<not> is_null v"
    by auto
  from Cons.prems have rest: "\<forall>c\<in>set cs. \<exists>v. json_at j (name c) = Inr v \<and> \<not> is_null v"
    by simp
  show ?case
    by (simp add: decode_step_plain [OF v] Cons.IH [OF rest] split: sum.splits)
qed

lemma plain_roundtrip:
  assumes "lawful_columns (map plain_column (columns T))"
  shows "\<exists>j e'. autoToJson T e = Inr j \<and> autoFromJson L T j = Inr e'
           \<and> hftools_autoToJson L (plain_traits T) e = Inr j
           \<and> hftools_autoFromJson L (plain_traits T) j = Inr e'
           \<and> (\<forall>c\<in>set (columns T). field_value (member c) e' = field_value (member c) e)"
proof -
  let ?H = "plain_traits T"
  have cols: "columns ?H = map plain_column (columns T)"
    by (simp add: plain_traits_def)
  with assms have law: "lawful_columns (columns ?H)" by simp
  then have d: "distinct (map name (columns ?H))"
    by (simp add: lawful_columns_def)
  from hftools_encode_at [OF d, of L e] obtain j where
    j: "hftools_autoToJson L ?H e = Inr j"
    and at: "\<forall>c\<in>set (columns ?H). json_at j (name c) = Inr (hftools_to_json L (member c) e)"
    by blast
  let ?e' = "for_each (columns ?H)
               (\<lambda>c. hftools_field_store (member c) (decoded_value L (member c) e)) (Entity ?H)"
  have dec: "hftools_autoFromJson L ?H j = Inr ?e'"
    by (simp add: hftools_autoFromJson_loop hftools_decode_loop_encoded [OF at])
  have present: "\<forall>c\<in>set (columns T). \<exists>v. json_at j (name c) = Inr v \<and> \<not> is_null v"
  proof
    fix c assume "c \<in> set (columns T)"
    then have "plain_column c \<in> set (columns ?H)" by (simp add: cols)
    with at have "json_at j (name (plain_column c))
                  = Inr (hftools_to_json L (member (plain_column c)) e)" by blast
    then have "json_at j (name c) = Inr (to_json_field (member c) e)"
      by (simp add: plain_column_def hftools_to_json_def)
    then show "\<exists>v. json_at j (name c) = Inr v \<and> \<not> is_null v"
      by (simp add: to_json_field_not_null)
  qed
  have "autoFromJson L T j = hftools_autoFromJson L ?H j"
    by (simp add: autoFromJson_loop hftools_autoFromJson_loop cols decode_loop_plain [OF present]
        plain_traits_def)
  with dec have dec': "autoFromJson L T j = Inr ?e'" by simp
  have vals: "\<forall>c\<in>set (columns T). field_value (member c) ?e' = field_value (member c) e"
  proof
    fix c assume "c \<in> set (columns T)"
    then have "plain_column c \<in> set (columns ?H)" by (simp add: cols)
    from stores_read_back [OF law subset_refl d this, of L e "Entity ?H"]
    show "field_value (member c) ?e' = field_value (member c) e"
      by (simp add: plain_column_def decoded_value_def)
  qed
  from j dec dec' vals show ?thesis
    by (simp add: autoToJson_plain)
qed

lemma member_independent_simps:
  "member_independent (Plain (IntField gi si)) m'
     \<longleftrightarrow> (\<forall>x e. hftools_field_value m' (si x e) = hftools_field_value m' e)"
  "member_independent (Plain (DoubleField gd sd)) m'
     \<longleftrightarrow> (\<forall>x e. hftools_field_value m' (sd x e) = hftools_field_value m' e)"
  "member_independent (Plain (StringField gs ss)) m'
     \<longleftrightarrow> (\<forall>x e. hftools_field_value m' (ss x e) = hftools_field_value m' e)"
  "member_independent (TimestampMember gt st) m'
     \<longleftrightarrow> (\<forall>x e. hftools_field_value m' (st x e) = hftools_field_value m' e)"
proof -
  show "member_independent (Plain (IntField gi si)) m'
     \<longleftrightarrow> (\<forall>x e. hftools_field_value m' (si x e) = hftools_field_value m' e)"
    unfolding member_independent_def
  proof (intro iffI allI)
    fix x e assume "\<forall>v e. hftools_field_value m' (hftools_field_store (Plain (IntField gi si)) v e)
                          = hftools_field_value m' e"
    from this [rule_format, of "IntValue x" e]
    show "hftools_field_value m' (si x e) = hftools_field_value m' e" by simp
  next
    fix v e assume "\<forall>x e. hftools_field_value m' (si x e) = hftools_field_value m' e"
    then show "hftools_field_value m' (hftools_field_store (Plain (IntField gi si)) v e)
               = hftools_field_value m' e"
      by (cases v) simp_all
  qed
  show "member_independent (Plain (DoubleField gd sd)) m'
     \<longleftrightarrow> (\<forall>x e. hftools_field_value m' (sd x e) = hftools_field_value m' e)"
    unfolding member_independent_def
  proof (intro iffI allI)
    fix x e assume "\<forall>v e. hftools_field_value m' (hftools_field_store (Plain (DoubleField gd sd)) v e)
                          = hftools_field_value m' e"
    from this [rule_format, of "FloatValue x" e]
    show "hftools_field_value m' (sd x e) = hftools_field_value m' e" by simp
  next
    fix v e assume "\<forall>x e. hftools_field_value m' (sd x e) = hftools_field_value m' e"
    then show "hftools_field_value m' (hftools_field_store (Plain (DoubleField gd sd)) v e)
               = hftools_field_value m' e"
      by (cases v) simp_all
  qed
  show "member_independent (Plain (StringField gs ss)) m'
     \<longleftrightarrow> (\<forall>x e. hftools_field_value m' (ss x e) = hftools_field_value m' e)"
    unfolding member_independent_def
  proof (intro iffI allI)
    fix x e assume "\<forall>v e. hftools_field_value m' (hftools_field_store (Plain (StringField gs ss)) v e)
                          = hftools_field_value m' e"
    from this [rule_format, of "TextValue x" e]
    show "hftools_field_value m' (ss x e) = hftools_field_value m' e" by simp
  next
    fix v e assume "\<forall>x e. hftools_field_value m' (ss x e) = hftools_field_value m' e"
    then show "hftools_field_value m' (hftools_field_store (Plain (StringField gs ss)) v e)
               = hftools_field_value m' e"
      by (cases v) simp_all
  qed
  show "member_independent (TimestampMember gt st) m'
     \<longleftrightarrow> (\<forall>x e. hftools_field_value m' (st x e) = hftools_field_value m' e)"
    unfolding member_independent_def
  proof (intro iffI allI)
    fix x e assume "\<forall>v e. hftools_field_value m' (hftools_field_store (TimestampMember gt st) v e)
                          = hftools_field_value m' e"
    from this [rule_format, of "TimeValue x" e]
    show "hftools_field_value m' (st x e) = hftools_field_value m' e" by simp
  next
    fix v e assume "\<forall>x e. hftools_field_value m' (st x e) = hftools_field_value m' e"
    then show "hftools_field_value m' (hftools_field_store (TimestampMember gt st) v e)
               = hftools_field_value m' e"
      by (cases v) simp_all
  qed
qed

lemma FXInstrument2_lawful: "lawful_columns (map plain_column (columns (FXInstrument2_traits zero)))"
  by (simp add: lawful_columns_def FXInstrument2_traits_def FXInstrument2_columns_def
      plain_column_def member_independent_simps)

lemma Stamped_lawful: "lawful_columns (columns Stamped_traits)"
  by (simp add: lawful_columns_def Stamped_traits_def member_independent_simps)

text \<open>
  C4, as the code has it. Where the member pointers of the columns are lawful and
  independent and the column names distinct, decoding the encoding of an entity succeeds
  and restores every member of type \<^verbatim>\<open>int\<close>, \<^verbatim>\<open>double\<close> and \<^verbatim>\<open>std::string\<close>, in both
  pairs of JSON functions. A \<^verbatim>\<open>Timestamp\<close> member comes back as
  \<^verbatim>\<open>stringToTimePoint(timePointToString(t))\<close>, read from a string that keeps whole
  seconds only.
\<close>

theorem roundtrip_restores_plain_columns:
  assumes "lawful_columns (columns H)"
      and "lawful_columns (map plain_column (columns T))"
  shows "(\<exists>j h'. hftools_autoToJson L H h = Inr j \<and> hftools_autoFromJson L H j = Inr h'
            \<and> (\<forall>c\<in>set (columns H).
                  case member c of
                    Plain f \<Rightarrow> field_value f h' = field_value f h
                  | TimestampMember g s \<Rightarrow>
                      g h' = stringToTimePoint L (timePointToString L (g h))))
       \<and> (\<exists>j e'. autoToJson T e = Inr j \<and> autoFromJson L T j = Inr e'
            \<and> (\<forall>c\<in>set (columns T). field_value (member c) e' = field_value (member c) e))"
proof
  from hftools_roundtrip [OF assms(1), of L h] obtain j h' where
    a: "hftools_autoToJson L H h = Inr j" "hftools_autoFromJson L H j = Inr h'"
    and v: "\<forall>c\<in>set (columns H). hftools_field_value (member c) h' = decoded_value L (member c) h"
    by blast
  have "\<forall>c\<in>set (columns H).
          case member c of
            Plain f \<Rightarrow> field_value f h' = field_value f h
          | TimestampMember g s \<Rightarrow> g h' = stringToTimePoint L (timePointToString L (g h))"
  proof
    fix c assume "c \<in> set (columns H)"
    with v have "hftools_field_value (member c) h' = decoded_value L (member c) h" by blast
    then show "case member c of
            Plain f \<Rightarrow> field_value f h' = field_value f h
          | TimestampMember g s \<Rightarrow> g h' = stringToTimePoint L (timePointToString L (g h))"
      by (cases "member c") (simp_all add: decoded_value_def)
  qed
  with a show "\<exists>j h'. hftools_autoToJson L H h = Inr j \<and> hftools_autoFromJson L H j = Inr h'
            \<and> (\<forall>c\<in>set (columns H).
                  case member c of
                    Plain f \<Rightarrow> field_value f h' = field_value f h
                  | TimestampMember g s \<Rightarrow>
                      g h' = stringToTimePoint L (timePointToString L (g h)))"
    by blast
next
  from plain_roundtrip [OF assms(2), of e L]
  show "\<exists>j e'. autoToJson T e = Inr j \<and> autoFromJson L T j = Inr e'
            \<and> (\<forall>c\<in>set (columns T). field_value (member c) e' = field_value (member c) e)"
    by blast
qed

theorem roundtrip_restores_plain_columns_witness:
  "lawful_columns (columns Stamped_traits)
   \<and> lawful_columns (map plain_column (columns (FXInstrument2_traits (0::real))))
   \<and> (\<exists>j h'. hftools_autoToJson (reference_lib 0) Stamped_traits stamped_sample = Inr j
          \<and> hftools_autoFromJson (reference_lib 0) Stamped_traits j = Inr h'
          \<and> st_id h' = 5 \<and> st_label h' = ''tick'')
   \<and> (\<exists>j e'. autoToJson (FXInstrument2_traits 0) sample_instrument = Inr j
          \<and> autoFromJson (reference_lib 0) (FXInstrument2_traits 0) j = Inr e'
          \<and> fx2_id e' = 42 \<and> fx2_userId e' = 7 \<and> fx2_instrumentId e' = 3
          \<and> fx2_side e' = ''BUY'' \<and> fx2_quantity e' = 1.5 \<and> fx2_price e' = 2
          \<and> fx2_timestamp e' = ''2024-01-01 00:00:00'')"
proof -
  note rt = roundtrip_restores_plain_columns
              [OF Stamped_lawful FXInstrument2_lawful, of "reference_lib 0" stamped_sample
                  "0::real" sample_instrument]
  from rt [THEN conjunct1] obtain j h' where
    h1: "hftools_autoToJson (reference_lib 0) Stamped_traits stamped_sample = Inr j"
    and h2: "hftools_autoFromJson (reference_lib 0) Stamped_traits j = Inr h'"
    and hv: "\<forall>c\<in>set (columns Stamped_traits).
                  case member c of
                    Plain f \<Rightarrow> field_value f h' = field_value f stamped_sample
                  | TimestampMember g s \<Rightarrow>
                      g h' = stringToTimePoint (reference_lib 0)
                               (timePointToString (reference_lib 0) (g stamped_sample))"
    by (elim exE conjE) (rule that)
  from hv have h3: "st_id h' = 5 \<and> st_label h' = ''tick''"
    by (simp add: Stamped_traits_def stamped_sample_def)
  have first: "\<exists>j h'. hftools_autoToJson (reference_lib 0) Stamped_traits stamped_sample = Inr j
          \<and> hftools_autoFromJson (reference_lib 0) Stamped_traits j = Inr h'
          \<and> st_id h' = 5 \<and> st_label h' = ''tick''"
    by (rule exI [of _ j], rule exI [of _ h'], rule conjI [OF h1 conjI [OF h2 h3]])
  from rt [THEN conjunct2] obtain k e' where
    e1: "autoToJson (FXInstrument2_traits 0) sample_instrument = Inr k"
    and e2: "autoFromJson (reference_lib 0) (FXInstrument2_traits 0) k = Inr e'"
    and ev: "\<forall>c\<in>set (columns (FXInstrument2_traits (0::real))).
               field_value (member c) e' = field_value (member c) sample_instrument"
    by (elim exE conjE) (rule that)
  from ev have e3: "fx2_id e' = 42 \<and> fx2_userId e' = 7 \<and> fx2_instrumentId e' = 3
          \<and> fx2_side e' = ''BUY'' \<and> fx2_quantity e' = 1.5 \<and> fx2_price e' = 2
          \<and> fx2_timestamp e' = ''2024-01-01 00:00:00''"
    by (simp add: FXInstrument2_traits_def FXInstrument2_columns_def sample_instrument_def)
  have second: "\<exists>j e'. autoToJson (FXInstrument2_traits 0) sample_instrument = Inr j
          \<and> autoFromJson (reference_lib 0) (FXInstrument2_traits 0) j = Inr e'
          \<and> fx2_id e' = 42 \<and> fx2_userId e' = 7 \<and> fx2_instrumentId e' = 3
          \<and> fx2_side e' = ''BUY'' \<and> fx2_quantity e' = 1.5 \<and> fx2_price e' = 2
          \<and> fx2_timestamp e' = ''2024-01-01 00:00:00''"
    by (rule exI [of _ k], rule exI [of _ e'], rule conjI [OF e1 conjI [OF e2 e3]])
  show ?thesis
    by (rule conjI [OF Stamped_lawful conjI [OF FXInstrument2_lawful conjI [OF first second]]])
qed

text \<open>
  The round-trip law without that restriction fails on a \<^verbatim>\<open>Timestamp\<close> one nanosecond after
  the epoch, in a UTC time zone: it is encoded as \<open>1970-01-01 00:00:00\<close> and decoded as the
  epoch.
\<close>

theorem roundtrip_loses_subsecond_counterexample:
  "hftools_autoToJson (reference_lib 0) Stamped_traits subsecond_sample
     = Inr (JObject [(''id'', JInt 5), (''label'', JString ''tick''),
                     (''at'', JString ''1970-01-01 00:00:00'')])
   \<and> hftools_autoFromJson (reference_lib 0) Stamped_traits
       (JObject [(''id'', JInt 5), (''label'', JString ''tick''),
                 (''at'', JString ''1970-01-01 00:00:00'')])
     = Inr \<lparr> st_id = 5, st_label = ''tick'', st_at = 0 \<rparr>
   \<and> st_at subsecond_sample = 1"
  by code_simp

section \<open>Decoding any JSON value\<close>























section \<open>Reading one entity by its key\<close>

lemma autoFromJson_null:
  "columns T = c # cs \<Longrightarrow> autoFromJson L T JNull = Inl (JsonTypeError 304)"
  by (simp add: autoFromJson_def)

lemma autoFromJson_empty_object:
  "columns T = c # cs \<Longrightarrow> autoFromJson L T (JObject []) = Inl (JsonOutOfRange (name c))"
  by (simp add: autoFromJson_def)

text \<open>
  C6, as the code has it. \<^verbatim>\<open>getById\<close> of the prepared-statement repository sends the
  select-by-id statement with the parameter list \<open>[id]\<close> to \<^verbatim>\<open>queryOnePrepared\<close> and
  returns what \<^verbatim>\<open>T::fromJson\<close> decodes from the row that comes back. It has no check for an
  empty result: for a type decoded by \<^verbatim>\<open>autoFromJson\<close>, a null row ends in \<^verbatim>\<open>type_error\<close>
  304 and an empty object in \<^verbatim>\<open>out_of_range\<close> for the first column.
\<close>

theorem getById_without_not_found_check:
  "Repository_getById db fromJson T ident =
     (case queryOnePrepared db (''SELECT * FROM '' @ tableName T @ '' WHERE '' @ primaryKey T @ ''=$1'')
             [JInt (scast ident)] of
        Inl err \<Rightarrow> Inl err
      | Inr row \<Rightarrow> fromJson row)
   \<and> (\<forall>c cs. queryOnePrepared db
                 (''SELECT * FROM '' @ tableName T @ '' WHERE '' @ primaryKey T @ ''=$1'')
                 [JInt (scast ident)] = Inr JNull
              \<and> columns T = c # cs
          \<longrightarrow> Repository_getById db (autoFromJson L T) T ident = Inl (JsonTypeError 304))
   \<and> (\<forall>c cs. queryOnePrepared db
                 (''SELECT * FROM '' @ tableName T @ '' WHERE '' @ primaryKey T @ ''=$1'')
                 [JInt (scast ident)] = Inr (JObject [])
              \<and> columns T = c # cs
          \<longrightarrow> Repository_getById db (autoFromJson L T) T ident = Inl (JsonOutOfRange (name c)))"
proof (intro conjI allI impI)
  show "Repository_getById db fromJson T ident =
     (case queryOnePrepared db (''SELECT * FROM '' @ tableName T @ '' WHERE '' @ primaryKey T @ ''=$1'')
             [JInt (scast ident)] of
        Inl err \<Rightarrow> Inl err
      | Inr row \<Rightarrow> fromJson row)"
    by (simp add: Repository_getById_def)
next
  fix c cs
  assume "queryOnePrepared db
                 (''SELECT * FROM '' @ tableName T @ '' WHERE '' @ primaryKey T @ ''=$1'')
                 [JInt (scast ident)] = Inr JNull \<and> columns T = c # cs"
  then show "Repository_getById db (autoFromJson L T) T ident = Inl (JsonTypeError 304)"
    by (simp add: Repository_getById_def autoFromJson_null)
next
  fix c cs
  assume "queryOnePrepared db
                 (''SELECT * FROM '' @ tableName T @ '' WHERE '' @ primaryKey T @ ''=$1'')
                 [JInt (scast ident)] = Inr (JObject []) \<and> columns T = c # cs"
  then show "Repository_getById db (autoFromJson L T) T ident = Inl (JsonOutOfRange (name c))"
    by (simp add: Repository_getById_def autoFromJson_empty_object)
qed

lemma stored_row_decodes:
  "FXInstrument2_fromJson (reference_lib 0) 0 stored_row = Inr sample_instrument"
  by code_simp

theorem getById_without_not_found_check_witness:
  "queryOnePrepared (counting_db 0) ''SELECT * FROM FXInstrument2 WHERE id=$1'' [JInt 42] = Inr JNull
   \<and> Repository_getById (counting_db 0) (FXInstrument2_fromJson (reference_lib 0) 0)
         (FXInstrument2_traits 0) 42
       = Inl (JsonTypeError 304)
   \<and> queryOnePrepared one_row_db ''SELECT * FROM FXInstrument2 WHERE id=$1'' [JInt 42] = Inr stored_row
   \<and> Repository_getById one_row_db (FXInstrument2_fromJson (reference_lib 0) 0)
         (FXInstrument2_traits 0) 42
       = Inr sample_instrument"
proof -
  have sql: "''SELECT * FROM '' @ tableName (FXInstrument2_traits (0::real)) @ '' WHERE ''
               @ primaryKey (FXInstrument2_traits (0::real)) @ ''=$1''
             = ''SELECT * FROM FXInstrument2 WHERE id=$1''"
    by (simp add: FXInstrument2_traits_def)
  have q: "queryOnePrepared (counting_db 0) ''SELECT * FROM FXInstrument2 WHERE id=$1'' [JInt 42]
           = Inr JNull"
    by (simp add: counting_db_def)
  have cols: "columns (FXInstrument2_traits (0::real)) = hd FXInstrument2_columns # tl FXInstrument2_columns"
    by (simp add: FXInstrument2_traits_def FXInstrument2_columns_def)
  have id42: "scast (42 :: 32 word) = (42 :: 64 word)"
    by simp
  have dec: "autoFromJson (reference_lib 0) (FXInstrument2_traits (0::real))
             = FXInstrument2_fromJson (reference_lib 0) 0"
    by (rule ext) (simp add: FXInstrument2_fromJson_def)
  from getById_without_not_found_check
         [of "counting_db 0" _ "FXInstrument2_traits 0" 42 "reference_lib 0",
          THEN conjunct2, THEN conjunct1, rule_format,
          of "hd FXInstrument2_columns" "tl FXInstrument2_columns", unfolded sql id42 dec] q cols
  have a: "Repository_getById (counting_db 0) (FXInstrument2_fromJson (reference_lib 0) 0)
             (FXInstrument2_traits 0) 42 = Inl (JsonTypeError 304)"
    by blast
  have o: "queryOnePrepared one_row_db ''SELECT * FROM FXInstrument2 WHERE id=$1'' [JInt 42]
           = Inr stored_row"
    by (simp add: one_row_db_def)
  from getById_without_not_found_check
         [of one_row_db "FXInstrument2_fromJson (reference_lib 0) 0" "FXInstrument2_traits 0" 42,
          THEN conjunct1, unfolded sql id42 o]
  have b: "Repository_getById one_row_db (FXInstrument2_fromJson (reference_lib 0) 0)
             (FXInstrument2_traits 0) 42 = Inr sample_instrument"
    by (simp add: stored_row_decodes)
  show ?thesis
    by (rule conjI [OF q conjI [OF a conjI [OF o b]]])
qed

text \<open>
  On an executor that answers with a null row no \<open>NotFoundError\<close> is raised: the failure is
  the JSON library's \<^verbatim>\<open>type_error\<close>, raised by the decoder.
\<close>

theorem getById_empty_result_counterexample:
  "queryOnePrepared (counting_db 0) ''SELECT * FROM FXInstrument2 WHERE id=$1'' [JInt 42] = Inr JNull
   \<and> Repository_getById (counting_db 0) (FXInstrument2_fromJson (reference_lib 0) 0)
        (FXInstrument2_traits 0) 42
      = Inl (JsonTypeError 304)"
  by code_simp

end
